theory Spec2Isabelle
  imports Complex_Main
begin

section \<open>Sky brightness model of \<open>src/skybrightness.c\<close>\<close>

text \<open>
  The C code computes in IEEE single precision.  The embedding below reads every
  \<open>float\<close> as a real number and every libm call as the function it approximates
  (\<open>logf\<close> as \<open>ln\<close>, \<open>cosf\<close> as \<open>cos\<close>, \<open>sqrtf\<close> as \<open>sqrt\<close>, ...), with one exception:
  \<open>expf\<close> returns zero where the exponential lies below every positive \<open>float\<close>, as the
  code does at large altitudes.  Rounding to 24 bits, overflow, infinities and NaN are
  not part of the real-valued functions; theorems about the stored extinction coefficient
  carry the hypotheses under which the real reading applies.  Decimal literals of the
  source are taken at their written value.  Each definition names the source lines it
  transcribes and keeps the order of the assignments.
\<close>

subsection \<open>Helpers and constants (lines 14--45)\<close>

text \<open>
  \<open>expf\<close> of the C library.  The smallest positive \<open>float\<close> is \<open>1 / 2 ^ 149\<close>; an
  exponential below half of it is returned as zero (underflow), which happens for
  arguments below about \<open>- 103.97\<close>.  Above that the value is read as the exponential
  itself.
\<close>
definition expf :: "real \<Rightarrow> real" where
  "expf x = (if exp x < 1 / 2 ^ 150 then 0 else exp x)"

text \<open>\<open>#define exp10f(x) expf((x) * logf(10.f))\<close>\<close>
definition exp10f :: "real \<Rightarrow> real" where
  "exp10f x = expf (x * ln 10)"

definition pow2 :: "real \<Rightarrow> real" where
  "pow2 x = x * x"

definition pow4 :: "real \<Rightarrow> real" where
  "pow4 x = x * x * x * x"

text \<open>Lines 20--26: one affine step followed by ten squarings.\<close>
definition fast_expf :: "real \<Rightarrow> real" where
  "fast_expf x0 =
    (let x = 1 + x0 / 1024;
         x = x * x; x = x * x; x = x * x; x = x * x;
         x = x * x; x = x * x; x = x * x; x = x * x;
         x = x * x; x = x * x
     in x)"

definition fast_exp10f :: "real \<Rightarrow> real" where
  "fast_exp10f x = fast_expf (x * ln 10)"

text \<open>
  \<open>powf\<close> of the C library: for a negative base it is defined on integral exponents only,
  where it is the signed power; HOL's \<open>powr\<close> covers the non-negative bases.  For a
  negative base and a non-integral exponent C returns NaN; the model then has the value of
  \<open>powr\<close>, which no theorem below relies on.
\<close>
definition powf :: "real \<Rightarrow> real \<Rightarrow> real" where
  "powf x y =
    (if x < 0 \<and> y = of_int \<lfloor>y\<rfloor>
     then (if even \<lfloor>y\<rfloor> then 1 else - 1) * (\<bar>x\<bar> powr y)
     else x powr y)"

text \<open>
  Modelled from the spec: the macro \<open>max\<close> of \<open>utils/utils.h\<close> is not among the sources;
  the spec describes its two uses as clamping an angular distance to a minimum of one
  degree, that is, the larger of the two arguments.
\<close>
definition max_macro :: "real \<Rightarrow> real \<Rightarrow> real" where
  "max_macro a b = (if a > b then a else b)"

text \<open>Radian to degree.\<close>
definition DR :: real where
  "DR = 180 / 3.14159"

text \<open>The local constant \<open>RD\<close> of both functions (lines 71 and 113).\<close>
definition RD :: real where
  "RD = 3.14159 / 180"

text \<open>Nanolambert to candela per square metre.\<close>
definition NLAMBERT_TO_CDM2 :: real where
  "NLAMBERT_TO_CDM2 = 3.183 / 10 ^ 6"

definition WA :: real where "WA = 0.55"
definition MO :: real where "MO = - 11.05"
definition OZ :: real where "OZ = 0.031"
definition WT :: real where "WT = 0.031"
definition BO :: real where "BO = 1 / 10 ^ 13"
definition CM :: real where "CM = 0"
definition MS :: real where "MS = - 26.74"

subsection \<open>Session state\<close>

text \<open>
  The fields of \<open>skybrightness_t\<close> that the two functions write and read.  The struct is
  declared in \<open>skybrightness.h\<close>, which is not among the sources; year and month are the
  integers that \<open>skybrightness_prepare\<close> receives, every other field is a \<open>float\<close>.
\<close>
record skybrightness =
  Y :: int
  M :: int
  AM :: real
  LA :: real
  AL :: real
  TE :: real
  RH :: real
  ZM :: real
  ZS :: real
  k_BT :: real
  k_BM :: real
  k_BN :: real
  K :: real
  XM :: real
  XS :: real

subsection \<open>\<open>skybrightness_prepare\<close> (lines 47--102)\<close>

text \<open>
  The function fills the struct behind its out-parameter \<open>sb\<close>.  It assigns every field
  of the record above and reads none before assigning it, so the model returns the filled
  record: lines 55--66 are the first twelve bindings, lines 70--77 read the same values
  back into locals of the same names, and lines 91, 96 and 101 are the last three fields.

  The humidity factor of line 86 has a real value for a relative humidity strictly between
  0 and 100, where \<open>logf (RH / 100)\<close> is negative and the base of the power exceeds 1.  At
  100 the code divides by \<open>logf 1 = 0\<close> and stores an infinite \<open>K\<close>, and below 0 it
  stores a NaN; HOL's total division and logarithm give \<open>K\<close> some number there, about
  which nothing is proved: the theorems on the value of \<open>K\<close>, and the claims that rest on
  it, are stated for a humidity inside the interval.
\<close>
definition skybrightness_prepare ::
  "int \<Rightarrow> int \<Rightarrow> real \<Rightarrow> real \<Rightarrow> real \<Rightarrow> real \<Rightarrow> real \<Rightarrow> real \<Rightarrow> real
     \<Rightarrow> real \<Rightarrow> real \<Rightarrow> real \<Rightarrow> skybrightness" where
  "skybrightness_prepare year month moon_phase latitude altitude temperature
     relative_humidity dist_moon_zenith dist_sun_zenith
     twilight_coef moon_brightness_coef darknight_brightness_coef =
    (let sb_Y = year;
         sb_M = month;
         sb_AM = moon_phase * DR;
         sb_LA = latitude * DR;
         sb_AL = altitude;
         sb_TE = temperature;
         sb_RH = relative_humidity;
         sb_ZM = dist_moon_zenith * DR;
         sb_ZS = dist_sun_zenith * DR;
         sb_k_BT = twilight_coef;
         sb_k_BM = moon_brightness_coef;
         sb_k_BN = darknight_brightness_coef;
         M = real_of_int sb_M;
         LA = sb_LA;
         AL = sb_AL;
         RH = sb_RH;
         TE = sb_TE;
         ZM = sb_ZM;
         ZS = sb_ZS;
         LT = LA * RD;
         RA = (M - 3) * 30 * RD;
         SL = (if LA > 0 then 1 else - 1);
         KR = 0.1066 * expf (- 1 * AL / 8200) * powf (WA / 0.55) (- 4);
         KA = 0.1 * powf (WA / 0.55) (- 1.3) * expf (- 1 * AL / 1500);
         KA = KA * powf (1 - 0.32 / ln (RH / 100)) 1.33 * (1 + 0.33 * SL * sin RA);
         KO = OZ * (3 + 0.4 * (LT * cos RA - cos (3 * LT))) / 3;
         KW = WT * 0.94 * (RH / 100) * expf (TE / 15) * expf (- 1 * AL / 8200);
         K = KR + KA + KO + KW;
         XM = 1 / (cos (ZM * RD) + 0.025 * expf (- 11 * cos (ZM * RD)));
         XM = (if ZM > 90 then 40 else XM);
         XS = 1 / (cos (ZS * RD) + 0.025 * expf (- 11 * cos (ZS * RD)));
         XS = (if ZS > 90 then 40 else XS)
     in \<lparr>Y = sb_Y, M = sb_M, AM = sb_AM, LA = sb_LA, AL = sb_AL, TE = sb_TE, RH = sb_RH,
         ZM = sb_ZM, ZS = sb_ZS, k_BT = sb_k_BT, k_BM = sb_k_BM, k_BN = sb_k_BN,
         K = K, XM = XM, XS = XS\<rparr>)"

subsection \<open>\<open>skybrightness_get_luminance\<close> (lines 105--184)\<close>

text \<open>
  The function is straight-line code over local variables.  Each brightness term is given
  as a function of the session and of the query arguments it depends on, so that the
  theorems can name it; the inputs of lines 113--132 are repeated in each.
\<close>

text \<open>Lines 122, 126 and 130: air mass of the target direction.\<close>
definition target_ZZ :: "real \<Rightarrow> real" where
  "target_ZZ zenith_dist = (let Z = zenith_dist * DR; ZZ = Z * RD in ZZ)"

definition target_X :: "real \<Rightarrow> real" where
  "target_X zenith_dist =
    (let ZZ = target_ZZ zenith_dist;
         X = 1 / (cos ZZ + 0.025 * fast_expf (- 11 * cos ZZ))
     in X)"

text \<open>Lines 134--138: dark night sky brightness.\<close>
definition dark_night_BN :: "skybrightness \<Rightarrow> real \<Rightarrow> real" where
  "dark_night_BN sb zenith_dist =
    (let Y = real_of_int (Y sb);
         ZZ = target_ZZ zenith_dist;
         K = K sb;
         X = target_X zenith_dist;
         BN = BO * (1 + 0.3 * cos (6.283 * (Y - 1992) / 11));
         BN = BN * (0.4 + 0.6 / sqrt (1 - 0.96 * powf (sin ZZ) 2));
         BN = BN * fast_exp10f (- 0.4 * K * X);
         BN = BN * k_BN sb
     in BN)"

text \<open>Lines 140--151: moonlight brightness.\<close>
definition moonlight_BM :: "skybrightness \<Rightarrow> real \<Rightarrow> real \<Rightarrow> real" where
  "moonlight_BM sb moon_dist zenith_dist =
    (let AM = AM sb;
         RM = max_macro (moon_dist * DR) 1;
         K = K sb;
         X = target_X zenith_dist;
         XM = XM sb;
         MM = - 12.73 + 0.026 * \<bar>AM\<bar> + 4 / 10 ^ 9 * pow4 AM;
         MM = MM + CM;
         C3 = fast_exp10f (- 0.4 * K * XM);
         FM = 6.2 * 10 ^ 7 / pow2 RM + exp10f (6.15 - RM / 40);
         FM = FM + exp10f 5.36 * (1.06 + pow2 (cos (RM * RD)));
         BM = exp10f (- 0.4 * (MM - MO + 43.27));
         BM = BM * (1 - exp10f (- 0.4 * K * X));
         BM = BM * (FM * C3 + 440000 * (1 - C3));
         BM = BM * k_BM sb
     in BM)"

text \<open>Lines 153--157: twilight brightness.\<close>
definition twilight_BT :: "skybrightness \<Rightarrow> real \<Rightarrow> real \<Rightarrow> real" where
  "twilight_BT sb sun_dist zenith_dist =
    (let ZS = ZS sb;
         RS = max_macro (sun_dist * DR) 1;
         Z = zenith_dist * DR;
         K = K sb;
         X = target_X zenith_dist;
         HS = 90 - ZS;
         BT = exp10f (- 0.4 * (MS - MO + 32.5 - HS - (Z / (360 * K))));
         BT = BT * (100 / RS) * (1 - exp10f (- 0.4 * K * X));
         BT = BT * k_BT sb
     in BT)"

text \<open>Lines 159--165: daylight brightness.\<close>
definition daylight_BD :: "skybrightness \<Rightarrow> real \<Rightarrow> real \<Rightarrow> real" where
  "daylight_BD sb sun_dist zenith_dist =
    (let RS = max_macro (sun_dist * DR) 1;
         K = K sb;
         X = target_X zenith_dist;
         XS = XS sb;
         C4 = fast_exp10f (- 0.4 * K * XS);
         FS = 6.2 * 10 ^ 7 / pow2 RS + fast_exp10f (6.15 - RS / 40);
         FS = FS + fast_exp10f 5.36 * (1.06 + pow2 (cos (RS * RD)));
         BD = exp10f (- 0.4 * (MS - MO + 43.27));
         BD = BD * (1 - exp10f (- 0.4 * K * X));
         BD = BD * (FS * C4 + 440000 * (1 - C4))
     in BD)"

text \<open>Lines 167--176: total sky brightness \<open>B\<close>, before the unit conversion.\<close>
definition total_B :: "skybrightness \<Rightarrow> real \<Rightarrow> real \<Rightarrow> real \<Rightarrow> real" where
  "total_B sb moon_dist sun_dist zenith_dist =
    (let ZM = ZM sb;
         BN = dark_night_BN sb zenith_dist;
         BM = moonlight_BM sb moon_dist zenith_dist;
         BT = twilight_BT sb sun_dist zenith_dist;
         BD = daylight_BD sb sun_dist zenith_dist;
         B = (if BD > BT then BN + BT else BN + BD);
         B = (if ZM < 80 then B + BM else B);
         B = (if ZM > 80 \<and> ZM \<le> 90 then B + BM * (90 - ZM) / 10 else B)
     in B)"

text \<open>Lines 180--183: conversion to nanolamberts, then to candela per square metre.\<close>
definition skybrightness_get_luminance :: "skybrightness \<Rightarrow> real \<Rightarrow> real \<Rightarrow> real \<Rightarrow> real" where
  "skybrightness_get_luminance sb moon_dist sun_dist zenith_dist =
    (let B = total_B sb moon_dist sun_dist zenith_dist;
         BL = B / (1.11 / 10 ^ 15)
     in BL * NLAMBERT_TO_CDM2)"

section \<open>Basic facts about the model\<close>

subsection \<open>\<open>expf\<close>\<close>

lemma expf_nonneg [simp]: "0 \<le> expf x"
  by (simp add: expf_def)

lemma expf_le_exp: "expf x \<le> exp x"
  by (simp add: expf_def)

lemma expf_exp:
  assumes "- 75 \<le> x"
  shows "expf x = exp x"
proof -
  have "exp (1/2::real) \<le> 1 + 1/2 + (1/2)\<^sup>2" by (rule exp_bound) simp_all
  also have "\<dots> \<le> 2" by (simp add: power2_eq_square)
  finally have "exp (1/2::real) \<le> 2" .
  then have "inverse 2 \<le> inverse (exp (1/2::real))"
    by (intro le_imp_inverse_le) simp_all
  then have h: "1 / 2 \<le> exp (- (1/2)::real)" by (simp add: exp_minus inverse_eq_divide)
  have "((1::real) / 2) ^ 150 \<le> exp (- (1/2)) ^ 150"
    using h by (intro power_mono) simp_all
  also have "\<dots> = exp (real 150 * (- (1/2)))" by (rule exp_of_nat_mult [symmetric])
  also have "\<dots> = exp (- 75)" by simp
  also have "\<dots> \<le> exp x" using assms by simp
  finally have "\<not> exp x < 1 / 2 ^ 150" by (simp add: power_divide)
  then show ?thesis by (simp add: expf_def)
qed

lemma expf_underflow:
  assumes "x \<le> - 120"
  shows "expf x = 0"
proof -
  have "(1 + (4/5) / real 4) ^ 4 \<le> exp (4/5::real)"
    by (rule exp_ge_one_plus_x_over_n_power_n) simp_all
  moreover have "(2::real) < (1 + (4/5) / real 4) ^ 4" by (simp add: power_divide)
  ultimately have "2 < exp (4/5::real)" by linarith
  then have "inverse (exp (4/5::real)) < inverse 2"
    by (intro less_imp_inverse_less) simp_all
  then have h: "exp (- (4/5)::real) < 1 / 2" by (simp add: exp_minus inverse_eq_divide)
  have "exp x \<le> exp (- 120)" using assms by simp
  also have "\<dots> = exp (real 150 * (- (4/5)))" by simp
  also have "\<dots> = exp (- (4/5)) ^ 150" by (rule exp_of_nat_mult)
  also have "\<dots> < (1 / 2) ^ 150" using h by (intro power_strict_mono) simp_all
  finally have "exp x < 1 / 2 ^ 150" by (simp add: power_divide)
  then show ?thesis by (simp add: expf_def)
qed

lemma expf_mono:
  assumes "x \<le> y"
  shows "expf x \<le> expf y"
proof (cases "exp x < 1 / 2 ^ 150")
  case True
  then show ?thesis by (simp add: expf_def)
next
  case False
  moreover have "exp x \<le> exp y" using assms by simp
  ultimately have "\<not> exp y < 1 / 2 ^ 150" by linarith
  with False assms show ?thesis by (simp add: expf_def)
qed

lemma expf_le_one: "x \<le> 0 \<Longrightarrow> expf x \<le> 1"
  using expf_le_exp [of x] by (simp add: order_trans)

lemma expf_less_one: "x < 0 \<Longrightarrow> expf x < 1"
  using expf_le_exp [of x] by (simp add: le_less_trans)

lemma expf_pos: "- 75 \<le> x \<Longrightarrow> 0 < expf x"
  by (simp add: expf_exp)

subsection \<open>Fields of a prepared session\<close>

lemma DR_RD [simp]: "x * DR * RD = x"
  by (simp add: DR_def RD_def)

lemma powf_one [simp]: "powf 1 y = 1"
  by (simp add: powf_def)

lemma powf_nonneg_base: "0 \<le> x \<Longrightarrow> powf x y = x powr y"
  by (simp add: powf_def)

lemma powf_two [simp]: "powf x 2 = x\<^sup>2"
proof (cases "x < 0")
  case True
  then have "\<bar>x\<bar> powr 2 = \<bar>x\<bar>\<^sup>2" by (simp add: powr_numeral)
  with True show ?thesis by (simp add: powf_def)
next
  case False
  then show ?thesis by (cases "x = 0") (simp_all add: powf_def powr_numeral)
qed

lemma prepare_fields [simp]:
  "Y (skybrightness_prepare y m mp la al te rh dm ds kt km kn) = y"
  "AM (skybrightness_prepare y m mp la al te rh dm ds kt km kn) = mp * DR"
  "ZM (skybrightness_prepare y m mp la al te rh dm ds kt km kn) = dm * DR"
  "ZS (skybrightness_prepare y m mp la al te rh dm ds kt km kn) = ds * DR"
  "k_BT (skybrightness_prepare y m mp la al te rh dm ds kt km kn) = kt"
  "k_BM (skybrightness_prepare y m mp la al te rh dm ds kt km kn) = km"
  "k_BN (skybrightness_prepare y m mp la al te rh dm ds kt km kn) = kn"
  by (simp_all add: skybrightness_prepare_def Let_def)

lemma expf_airmass: "expf (- 11 * cos t) = exp (- 11 * cos t)"
proof -
  have "cos t \<le> 1" by simp
  then have "- 75 \<le> - 11 * cos t" by linarith
  then show ?thesis by (rule expf_exp)
qed

lemma prepare_XM:
  "XM (skybrightness_prepare y m mp la al te rh dm ds kt km kn) =
     (if dm * DR > 90 then 40
      else 1 / (cos (dm * DR * RD) + 0.025 * exp (- 11 * cos (dm * DR * RD))))"
  unfolding skybrightness_prepare_def Let_def expf_airmass by simp

lemma prepare_XS:
  "XS (skybrightness_prepare y m mp la al te rh dm ds kt km kn) =
     (if ds * DR > 90 then 40
      else 1 / (cos (ds * DR * RD) + 0.025 * exp (- 11 * cos (ds * DR * RD))))"
  unfolding skybrightness_prepare_def Let_def expf_airmass by simp

lemma prepare_K:
  "K (skybrightness_prepare y m mp la al te rh dm ds kt km kn) =
     0.1066 * expf (- al / 8200)
     + 0.1 * expf (- al / 1500) * powf (1 - 0.32 / ln (rh / 100)) 1.33
         * (1 + 0.33 * (if la * DR > 0 then 1 else - 1) * sin ((real_of_int m - 3) * 30 * RD))
     + OZ * (3 + 0.4 * (la * cos ((real_of_int m - 3) * 30 * RD) - cos (3 * la))) / 3
     + WT * 0.94 * (rh / 100) * expf (te / 15) * expf (- al / 8200)"
  by (simp add: skybrightness_prepare_def Let_def WA_def)

subsection \<open>Numeric bounds\<close>

lemma ln10_gt_2: "(2::real) < ln 10"
proof -
  have "exp (2::real) = exp 1 * exp 1" by (simp flip: exp_add)
  also have "\<dots> \<le> 3 * 3" by (intro mult_mono exp_le) simp_all
  finally have "exp (2::real) < 10" by simp
  then have "exp (2::real) < exp (ln 10)" by simp
  then show ?thesis by (simp only: exp_less_cancel_iff)
qed

lemma ln10_lt_3: "ln (10::real) < 3"
proof -
  have "(1 + 3 / real 8) ^ 8 \<le> exp (3::real)"
    by (rule exp_ge_one_plus_x_over_n_power_n) simp_all
  moreover have "(10::real) < (1 + 3 / real 8) ^ 8" by (simp add: power_divide)
  ultimately have "exp (ln 10) < exp (3::real)" by simp
  then show ?thesis by (simp only: exp_less_cancel_iff)
qed

lemma ln2_ge_half: "(1/2::real) \<le> ln 2"
proof -
  have "exp (1/2::real) \<le> 1 + 1/2 + (1/2)\<^sup>2" by (rule exp_bound) simp_all
  also have "\<dots> \<le> 2" by (simp add: power2_eq_square)
  finally have "exp (1/2::real) \<le> exp (ln 2)" by simp
  then show ?thesis by (simp only: exp_le_cancel_iff)
qed

text \<open>The humidity factor of the aerosol term.\<close>
lemma humidity_base_gt_1:
  fixes rh :: real
  assumes "0 < rh" "rh < 100"
  shows "1 < 1 - 0.32 / ln (rh / 100)"
proof -
  have "ln (rh / 100) < 0" using assms by (intro ln_less_zero) simp_all
  then have "0.32 / ln (rh / 100) < 0" by (rule divide_pos_neg [rotated]) simp
  then show ?thesis by simp
qed

lemma humidity_base_le:
  fixes rh :: real
  assumes "0 < rh" "rh \<le> 50"
  shows "1 - 0.32 / ln (rh / 100) \<le> 1.64"
proof -
  have "ln (rh / 100) \<le> ln (1/2)" using assms by (subst ln_le_cancel_iff) simp_all
  also have "\<dots> = - ln 2" by (simp add: ln_div)
  finally have l: "ln (rh / 100) \<le> - (1/2)" using ln2_ge_half by simp
  define t where "t = - ln (rh / 100)"
  have t: "1/2 \<le> t" using l by (simp add: t_def)
  have "0.32 / t \<le> 0.32 / (1/2)"
    using t by (intro divide_left_mono) simp_all
  moreover have "- (0.32 / ln (rh / 100)) = 0.32 / t" by (simp add: t_def)
  ultimately show ?thesis by simp
qed

lemma season_factor_bounds:
  fixes x :: real
  shows "0.67 \<le> 1 + 0.33 * (if c then 1 else - 1) * sin x"
    and "1 + 0.33 * (if c then 1 else - 1) * sin x \<le> 1.33"
proof -
  have a: "- 1 \<le> sin x" and b: "sin x \<le> 1" by simp_all
  have p: "0.67 \<le> 1 + 0.33 * 1 * sin x" "1 + 0.33 * 1 * sin x \<le> 1.33"
    by (simp; (use a b in linarith))+
  have n: "0.67 \<le> 1 + 0.33 * (- 1) * sin x" "1 + 0.33 * (- 1) * sin x \<le> 1.33"
    by (simp; (use a b in linarith))+
  show "0.67 \<le> 1 + 0.33 * (if c then 1 else - 1) * sin x"
    using p(1) n(1) by (simp only: if_split [where P = "\<lambda>t. 0.67 \<le> 1 + 0.33 * t * sin x"]) blast
  show "1 + 0.33 * (if c then 1 else - 1) * sin x \<le> 1.33"
    using p(2) n(2) by (simp only: if_split [where P = "\<lambda>t. 1 + 0.33 * t * sin x \<le> 1.33"]) blast
qed

lemma ozone_inner_bounds:
  fixes la :: real
  assumes "\<bar>la\<bar> \<le> 2"
  shows "\<bar>la * cos x - cos y\<bar> \<le> 3"
proof -
  have "\<bar>la\<bar> * \<bar>cos x\<bar> \<le> 2 * 1"
    using assms by (intro mult_mono) simp_all
  then have "\<bar>la * cos x\<bar> \<le> 2" by (simp add: abs_mult)
  moreover have "\<bar>cos y\<bar> \<le> 1" by simp
  ultimately show ?thesis by linarith
qed

lemma aerosol_nonneg:
  fixes rh al :: real
  assumes "0 < rh" "rh < 100"
  shows "0 \<le> 0.1 * expf (- al / 1500) * powf (1 - 0.32 / ln (rh / 100)) 1.33
              * (1 + 0.33 * (if c then 1 else - 1) * sin x)"
proof -
  have "0 \<le> 1 - 0.32 / ln (rh / 100)"
    using humidity_base_gt_1 [OF assms] by linarith
  then have p: "0 \<le> powf (1 - 0.32 / ln (rh / 100)) 1.33"
    by (simp only: powf_nonneg_base powr_ge_zero)
  have "(0::real) \<le> 0.67" by simp
  then have s: "0 \<le> 1 + 0.33 * (if c then 1 else - 1) * sin x"
    using season_factor_bounds(1) [of c x] by (rule order_trans)
  have e: "0 \<le> 0.1 * expf (- al / 1500)" by simp
  show ?thesis
    by (rule mult_nonneg_nonneg [OF mult_nonneg_nonneg [OF e p] s])
qed

lemma aerosol_le:
  fixes rh al :: real
  assumes "0 < rh" "rh \<le> 50" "0 \<le> al"
  shows "0.1 * expf (- al / 1500) * powf (1 - 0.32 / ln (rh / 100)) 1.33
              * (1 + 0.33 * (if c then 1 else - 1) * sin x) \<le> 0.36"
proof -
  define b where "b = 1 - 0.32 / ln (rh / 100)"
  define s where "s = 1 + 0.33 * (if c then 1 else - 1) * sin x"
  define e where "e = expf (- al / 1500)"
  define p where "p = powf b 1.33"
  have rh: "rh < 100" using assms(2) by simp
  have b1: "1 < b" unfolding b_def using assms(1) rh by (rule humidity_base_gt_1)
  have b2: "b \<le> 164 / 100" using humidity_base_le [OF assms(1,2)] by (simp add: b_def)
  have "b powr 1.33 \<le> b powr 2" using b1 by (intro powr_mono) simp_all
  also have "\<dots> = b * b" using b1 by (simp add: power2_eq_square)
  also have "\<dots> \<le> (164 / 100) * (164 / 100)" using b1 b2 by (intro mult_mono) simp_all
  also have "\<dots> \<le> 27 / 10" by simp
  finally have "b powr 1.33 \<le> 27 / 10" .
  then have p: "p \<le> 27 / 10" using b1 by (simp add: p_def powf_nonneg_base)
  have p0: "0 \<le> p" using b1 by (simp add: p_def powf_nonneg_base)
  have e1: "e \<le> 1" unfolding e_def using assms(3) by (intro expf_le_one) simp
  have e0: "0 \<le> e" by (simp add: e_def)
  have s1: "s \<le> 133 / 100" using season_factor_bounds(2) [of c x] by (simp add: s_def)
  have "(0::real) \<le> 0.67" by simp
  then have s0: "0 \<le> s" unfolding s_def
    using season_factor_bounds(1) [of c x] by (rule order_trans)
  have ep: "e * p \<le> 1 * (27 / 10)"
    by (rule mult_mono [OF e1 p]) (use p0 in simp_all)
  have ep0: "0 \<le> e * p" using e0 p0 by simp
  have "e * p * s \<le> 1 * (27 / 10) * (133 / 100)"
    by (rule mult_mono [OF ep s1]) (use s0 in simp_all)
  then have "1 / 10 * (e * p * s) \<le> 36 / 100" by simp
  then show ?thesis by (simp add: b_def s_def e_def p_def mult.assoc)
qed

subsection \<open>The composite extinction coefficient of a prepared session\<close>

lemma prepare_K_pos:
  assumes "0 < rh" "rh < 100" "\<bar>la\<bar> \<le> 2"
  shows "0 < K (skybrightness_prepare y m mp la al te rh dm ds kt km kn)"
proof -
  define ra where "ra = (real_of_int m - 3) * 30 * RD"
  define kr where "kr = 0.1066 * expf (- al / 8200)"
  define ka where "ka = 0.1 * expf (- al / 1500) * powf (1 - 0.32 / ln (rh / 100)) 1.33
              * (1 + 0.33 * (if la * DR > 0 then 1 else - 1) * sin ra)"
  define ko where "ko = OZ * (3 + 0.4 * (la * cos ra - cos (3 * la))) / 3"
  define kw where "kw = WT * 0.94 * (rh / 100) * expf (te / 15) * expf (- al / 8200)"
  have eq: "K (skybrightness_prepare y m mp la al te rh dm ds kt km kn) = kr + ka + ko + kw"
    unfolding prepare_K kr_def ka_def ko_def kw_def ra_def ..
  have kr: "0 \<le> kr" by (simp add: kr_def)
  have ka: "0 \<le> ka" unfolding ka_def using assms(1,2) by (rule aerosol_nonneg)
  define t where "t = la * cos ra - cos (3 * la)"
  have "\<bar>t\<bar> \<le> 3" unfolding t_def using assms(3) by (rule ozone_inner_bounds)
  then have "0 < 0.031 * (3 + 0.4 * t) / 3" by (simp add: field_simps)
  then have ko: "0 < ko" by (simp only: ko_def OZ_def t_def)
  have kw: "0 \<le> kw" using assms(1) by (simp add: kw_def WT_def)
  show ?thesis unfolding eq using kr ka ko kw by linarith
qed

lemma prepare_K_le:
  assumes "0 < rh" "rh \<le> 50" "\<bar>la\<bar> \<le> 2" "0 \<le> al" "te \<le> 15"
  shows "K (skybrightness_prepare y m mp la al te rh dm ds kt km kn) \<le> 1"
proof -
  define ra where "ra = (real_of_int m - 3) * 30 * RD"
  define kr where "kr = 0.1066 * expf (- al / 8200)"
  define ka where "ka = 0.1 * expf (- al / 1500) * powf (1 - 0.32 / ln (rh / 100)) 1.33
              * (1 + 0.33 * (if la * DR > 0 then 1 else - 1) * sin ra)"
  define ko where "ko = OZ * (3 + 0.4 * (la * cos ra - cos (3 * la))) / 3"
  define kw where "kw = WT * 0.94 * (rh / 100) * expf (te / 15) * expf (- al / 8200)"
  have eq: "K (skybrightness_prepare y m mp la al te rh dm ds kt km kn) = kr + ka + ko + kw"
    unfolding prepare_K kr_def ka_def ko_def kw_def ra_def ..
  have e2: "expf (- al / 8200) \<le> 1" using assms(4) by (intro expf_le_one) simp
  define E where "E = expf (- al / 8200)"
  have "E \<le> 1" using e2 by (simp add: E_def)
  then have "0.1066 * E \<le> 2 / 10" by simp
  then have kr: "kr \<le> 2 / 10" by (simp only: kr_def E_def)
  have "ka \<le> 0.36" unfolding ka_def using assms(1,2,4) by (rule aerosol_le)
  then have ka: "ka \<le> 36 / 100" by simp
  define t where "t = la * cos ra - cos (3 * la)"
  have "\<bar>t\<bar> \<le> 3" unfolding t_def using assms(3) by (rule ozone_inner_bounds)
  then have "0.031 * (3 + 0.4 * t) / 3 \<le> 1 / 10" by (simp add: field_simps)
  then have ko: "ko \<le> 1 / 10" by (simp only: ko_def OZ_def t_def)
  have "exp (te / 15) \<le> exp 1" using assms(5) by simp
  then have e1: "expf (te / 15) \<le> 3" using exp_le expf_le_exp [of "te / 15"] by linarith
  have r: "rh / 100 \<le> 1" using assms(2) by simp
  have "(rh / 100) * expf (te / 15) \<le> 1 * 3"
    by (rule mult_mono [OF r e1]) simp_all
  moreover have "0 \<le> (rh / 100) * expf (te / 15)" using assms(1) by simp
  ultimately have "(rh / 100) * expf (te / 15) * expf (- al / 8200) \<le> 1 * 3 * 1"
    using e2 by (intro mult_mono [where c = "expf (- al / 8200)"]) simp_all
  then have kw: "kw \<le> 1 / 10" by (simp add: kw_def WT_def mult.assoc)
  show ?thesis unfolding eq using kr ka ko kw by linarith
qed

subsection \<open>The constant 3.14159 lies below \<open>pi\<close>\<close>

lemma cos_lower_16:
  fixes x :: real
  assumes "0 < x"
  shows "(\<Sum>m<16. cos_coeff m * x ^ m) - x ^ 16 / fact 16 \<le> cos x"
proof -
  obtain t where t: "cos x = (\<Sum>m<16. cos_coeff m * x ^ m) + (cos (t + 1/2 * real 16 * pi) / fact 16) * x ^ 16"
    using Maclaurin_cos_expansion2 [OF assms, of 16] by auto
  define c where "c = cos (t + 1/2 * real 16 * pi)"
  have "- 1 \<le> c" unfolding c_def by (rule cos_ge_minus_one)
  then have "- 1 / fact 16 \<le> c / fact 16"
    by (intro divide_right_mono) simp_all
  then have "(- 1 / fact 16) * x ^ 16 \<le> (c / fact 16) * x ^ 16"
    using assms by (intro mult_right_mono) simp_all
  then show ?thesis unfolding t c_def [symmetric] by simp
qed

lemma sum_16:
  fixes f :: "nat \<Rightarrow> real"
  shows "(\<Sum>m<16. f m) = f 0 + f 1 + f 2 + f 3 + f 4 + f 5 + f 6 + f 7 + f 8 + f 9
     + f 10 + f 11 + f 12 + f 13 + f 14 + f 15"
  by (simp add: eval_nat_numeral)

lemma cos_coeff_values:
  "cos_coeff 0 = 1" "cos_coeff 1 = 0" "cos_coeff 2 = - 1 / 2" "cos_coeff 3 = 0"
  "cos_coeff 4 = 1 / 24" "cos_coeff 5 = 0" "cos_coeff 6 = - 1 / 720" "cos_coeff 7 = 0"
  "cos_coeff 8 = 1 / 40320" "cos_coeff 9 = 0" "cos_coeff 10 = - 1 / 3628800"
  "cos_coeff 11 = 0" "cos_coeff 12 = 1 / 479001600" "cos_coeff 13 = 0"
  "cos_coeff 14 = - 1 / 87178291200" "cos_coeff 15 = 0"
  by (simp_all add: cos_coeff_def fact_numeral)

lemma cos_poly_16:
  fixes x :: real
  shows "(\<Sum>m<16. cos_coeff m * x ^ m) =
    1 - x^2 / 2 + x^4 / 24 - x^6 / 720 + x^8 / 40320 - x^10 / 3628800
      + x^12 / 479001600 - x^14 / 87178291200"
  unfolding sum_16 cos_coeff_values by simp

lemma cos_1570795_pos: "0 < cos (1.570795 :: real)"
proof -
  define x :: real where "x = 314159 / 200000"
  have "0 < x" by (simp add: x_def)
  then have "(\<Sum>m<16. cos_coeff m * x ^ m) - x ^ 16 / fact 16 \<le> cos x"
    by (rule cos_lower_16)
  moreover have "0 < (\<Sum>m<16. cos_coeff m * x ^ m) - x ^ 16 / fact 16"
    unfolding cos_poly_16 x_def by (simp add: fact_numeral power_divide)
  ultimately have "0 < cos x" by linarith
  then show ?thesis by (simp add: x_def)
qed

subsection \<open>Clamps, the fast exponential and the scale coefficients\<close>

lemma RD_DR [simp]: "RD * DR = 1"
  by (simp add: DR_def RD_def)

lemma target_ZZ_eq [simp]: "target_ZZ z = z"
  by (simp add: target_ZZ_def)

lemma fast_expf_power: "fast_expf x = (1 + x / 1024) ^ 1024"
proof -
  have "(1024::nat) = 2*2*2*2*2*2*2*2*2*2" by simp
  then show ?thesis
    unfolding fast_expf_def Let_def by (simp only: power_mult power2_eq_square)
qed

lemma fast_expf_nonneg: "0 \<le> fast_expf x"
  unfolding fast_expf_power by simp

lemma max_macro_clamp: "a < 1 \<Longrightarrow> max_macro a 1 = 1"
  by (simp add: max_macro_def)

lemma max_macro_one [simp]: "max_macro 1 1 = 1"
  by (simp add: max_macro_def)

lemma moonlight_BM_clamp:
  "moon_dist * DR < 1 \<Longrightarrow> moonlight_BM sb moon_dist zd = moonlight_BM sb RD zd"
  by (simp add: moonlight_BM_def max_macro_clamp)

lemma twilight_BT_clamp:
  "sun_dist * DR < 1 \<Longrightarrow> twilight_BT sb sun_dist zd = twilight_BT sb RD zd"
  by (simp add: twilight_BT_def max_macro_clamp)

lemma daylight_BD_clamp:
  "sun_dist * DR < 1 \<Longrightarrow> daylight_BD sb sun_dist zd = daylight_BD sb RD zd"
  by (simp add: daylight_BD_def max_macro_clamp)




lemma total_B_eq:
  "total_B sb moon_dist sun_dist zenith_dist =
     dark_night_BN sb zenith_dist
     + min (twilight_BT sb sun_dist zenith_dist) (daylight_BD sb sun_dist zenith_dist)
     + (if ZM sb < 80 then moonlight_BM sb moon_dist zenith_dist
        else if ZM sb > 80 \<and> ZM sb \<le> 90
             then moonlight_BM sb moon_dist zenith_dist * (90 - ZM sb) / 10
             else 0)"
  by (simp add: total_B_def Let_def min_def)

subsection \<open>Signs and bounds of the exponentials\<close>

lemma fast_expf_le_one:
  assumes "- 2048 \<le> x" "x \<le> 0"
  shows "fast_expf x \<le> 1"
proof -
  have "\<bar>1 + x / 1024\<bar> \<le> 1" using assms by (simp add: abs_le_iff)
  then have "\<bar>1 + x / 1024\<bar> ^ 1024 \<le> 1" by (intro power_le_one) simp_all
  then show ?thesis unfolding fast_expf_power by (simp add: power_abs [symmetric] del: power_abs)
qed

lemma fast_exp10f_nonneg: "0 \<le> fast_exp10f x"
  by (simp add: fast_exp10f_def fast_expf_nonneg)

lemma fast_exp10f_le_one:
  assumes "0 \<le> t" "t * ln 10 \<le> 2048"
  shows "fast_exp10f (- t) \<le> 1"
proof -
  have "0 \<le> t * ln 10" using assms(1) ln10_gt_2 by simp
  then show ?thesis unfolding fast_exp10f_def using assms(2)
    by (intro fast_expf_le_one) simp_all
qed

lemma exp10f_nonneg [simp]: "0 \<le> exp10f x"
  by (simp add: exp10f_def)

lemma exp10f_exp:
  assumes "- 25 \<le> x"
  shows "exp10f x = exp (x * ln 10)"
proof -
  have "- 75 \<le> x * ln 10"
  proof (cases "0 \<le> x")
    case True
    then have "0 \<le> x * ln 10" using ln10_gt_2 by simp
    then show ?thesis by linarith
  next
    case False
    then have "(- x) * ln 10 \<le> (- x) * 3" using ln10_lt_3 by (intro mult_left_mono) simp_all
    with assms show ?thesis by simp
  qed
  then show ?thesis unfolding exp10f_def by (rule expf_exp)
qed

lemma exp10f_pos: "- 25 \<le> x \<Longrightarrow> 0 < exp10f x"
  by (simp add: exp10f_exp)

lemma exp10f_mono:
  assumes "x \<le> y"
  shows "exp10f x \<le> exp10f y"
proof -
  have "x * ln 10 \<le> y * ln 10" using assms ln10_gt_2 by simp
  then show ?thesis unfolding exp10f_def by (rule expf_mono)
qed

lemma exp10f_less_one:
  assumes "x < 0"
  shows "exp10f x < 1"
proof -
  have "0 < ln (10::real)" using ln10_gt_2 by linarith
  with assms have "x * ln 10 < 0" by (rule mult_neg_pos)
  then show ?thesis unfolding exp10f_def by (rule expf_less_one)
qed

lemma exp10f_le_one:
  assumes "x \<le> 0"
  shows "exp10f x \<le> 1"
proof -
  have "x * ln 10 \<le> 0" using assms ln10_gt_2 by (simp add: mult_le_0_iff)
  then show ?thesis unfolding exp10f_def by (rule expf_le_one)
qed

lemma exp10f_strict_mono:
  assumes "- 25 \<le> x" "x < y"
  shows "exp10f x < exp10f y"
proof -
  have "- 25 \<le> y" using assms by simp
  then show ?thesis using assms ln10_gt_2 by (simp add: exp10f_exp)
qed

lemma target_X_pos:
  assumes "0 \<le> cos zd"
  shows "0 < target_X zd"
proof (cases "cos zd = 0")
  case True
  then show ?thesis by (simp add: target_X_def fast_expf_power)
next
  case False
  with assms have "0 < cos zd" by simp
  moreover have "0 \<le> 0.025 * fast_expf (- 11 * cos zd)"
    using fast_expf_nonneg [of "- 11 * cos zd"] by simp
  ultimately have "0 < cos zd + 0.025 * fast_expf (- 11 * cos zd)" by linarith
  then show ?thesis by (simp add: target_X_def)
qed

text \<open>The mix \<open>F * C + 440000 * (1 - C)\<close> of lines 148 and 165 lies between its two ends.\<close>
lemma scatter_mix_ge:
  fixes F C m :: real
  assumes "0 \<le> C" "C \<le> 1" "m \<le> F" "m \<le> 440000"
  shows "m \<le> F * C + 440000 * (1 - C)"
proof -
  have "m * C \<le> F * C" using assms(1,3) by (rule mult_right_mono [rotated])
  moreover have "m * (1 - C) \<le> 440000 * (1 - C)"
    using assms(2,4) by (intro mult_right_mono) simp_all
  moreover have "m = m * C + m * (1 - C)" by (simp add: algebra_simps)
  ultimately show ?thesis by linarith
qed

lemma max_macro_ge_one: "1 \<le> max_macro a 1"
  by (simp add: max_macro_def)

lemma pow2_pos: "1 \<le> r \<Longrightarrow> 0 < pow2 r"
  by (simp add: pow2_def)

lemma pow2_nonneg [simp]: "0 \<le> pow2 r"
  by (simp add: pow2_def)

subsection \<open>Lower bounds of the daylight and moonlight terms\<close>

lemma sky_factor_nonneg:
  assumes "0 \<le> k" "0 \<le> x"
  shows "0 \<le> 1 - exp10f (- 0.4 * k * x)"
proof -
  have "0 \<le> 0.4 * (k * x)" using assms by simp
  then have "exp10f (- 0.4 * k * x) \<le> 1" by (intro exp10f_le_one) (simp add: mult.assoc)
  then show ?thesis by simp
qed

lemma sky_factor_pos:
  assumes "0 < k" "0 < x"
  shows "0 < 1 - exp10f (- 0.4 * k * x)"
proof -
  have "0 < 0.4 * (k * x)" using assms by simp
  then have "exp10f (- 0.4 * k * x) < 1" by (intro exp10f_less_one) (simp add: mult.assoc)
  then show ?thesis by simp
qed

lemma extinction_C_unit:
  assumes "0 \<le> k" "0 \<le> xa" "0.4 * k * xa * ln 10 \<le> 2048"
  shows "0 \<le> fast_exp10f (- 0.4 * k * xa)" "fast_exp10f (- 0.4 * k * xa) \<le> 1"
proof -
  show "0 \<le> fast_exp10f (- 0.4 * k * xa)" by (rule fast_exp10f_nonneg)
  have "0 \<le> 0.4 * k * xa" using assms(1,2) by simp
  then have "fast_exp10f (- (0.4 * k * xa)) \<le> 1" using assms(3) by (rule fast_exp10f_le_one)
  then show "fast_exp10f (- 0.4 * k * xa) \<le> 1" by simp
qed

lemma daylight_BD_lower:
  assumes "0 \<le> K sb" "0 \<le> target_X zd" "0 \<le> XS sb"
    and "0.4 * K sb * XS sb * ln 10 \<le> 2048"
    and "m \<le> 6.2 * 10 ^ 7 / pow2 (max_macro (sd * DR) 1)" "m \<le> 440000"
  shows "exp10f (- 0.4 * (MS - MO + 43.27)) * (1 - exp10f (- 0.4 * K sb * target_X zd)) * m
           \<le> daylight_BD sb sd zd"
proof -
  define RS where "RS = max_macro (sd * DR) 1"
  define C4 where "C4 = fast_exp10f (- 0.4 * K sb * XS sb)"
  define FS where "FS = 6.2 * 10 ^ 7 / pow2 RS + fast_exp10f (6.15 - RS / 40)
      + fast_exp10f 5.36 * (1.06 + pow2 (cos (RS * RD)))"
  define w where "w = exp10f (- 0.4 * (MS - MO + 43.27)) * (1 - exp10f (- 0.4 * K sb * target_X zd))"
  have eq: "daylight_BD sb sd zd = w * (FS * C4 + 440000 * (1 - C4))"
    by (simp add: daylight_BD_def Let_def w_def FS_def C4_def RS_def)
  have c: "0 \<le> C4" "C4 \<le> 1"
    unfolding C4_def using assms(1,3,4) by (rule extinction_C_unit)+
  have "0 \<le> fast_exp10f 5.36 * (1.06 + pow2 (cos (RS * RD)))"
    by (intro mult_nonneg_nonneg add_nonneg_nonneg fast_exp10f_nonneg) simp_all
  moreover have "0 \<le> fast_exp10f (6.15 - RS / 40)" by (rule fast_exp10f_nonneg)
  ultimately have "6.2 * 10 ^ 7 / pow2 RS \<le> FS" unfolding FS_def by linarith
  with assms(5) have f: "m \<le> FS" unfolding RS_def by linarith
  have g: "m \<le> FS * C4 + 440000 * (1 - C4)"
    using c f assms(6) by (rule scatter_mix_ge)
  have "0 \<le> w" unfolding w_def
    using sky_factor_nonneg [OF assms(1,2)] by (intro mult_nonneg_nonneg) simp_all
  then have "w * m \<le> w * (FS * C4 + 440000 * (1 - C4))"
    using g by (rule mult_left_mono [rotated])
  then show ?thesis unfolding eq w_def .
qed

lemma moonlight_BM_lower:
  assumes "0 \<le> K sb" "0 \<le> target_X zd" "0 \<le> XM sb"
    and "0.4 * K sb * XM sb * ln 10 \<le> 2048"
    and "m \<le> 6.2 * 10 ^ 7 / pow2 (max_macro (md * DR) 1)" "m \<le> 440000"
    and "0 \<le> k_BM sb"
  shows "exp10f (- 0.4 * (- 12.73 + 0.026 * \<bar>AM sb\<bar> + 4 / 10 ^ 9 * pow4 (AM sb) + CM - MO + 43.27))
           * (1 - exp10f (- 0.4 * K sb * target_X zd)) * m * k_BM sb
           \<le> moonlight_BM sb md zd"
proof -
  define RM where "RM = max_macro (md * DR) 1"
  define C3 where "C3 = fast_exp10f (- 0.4 * K sb * XM sb)"
  define FM where "FM = 6.2 * 10 ^ 7 / pow2 RM + exp10f (6.15 - RM / 40)
      + exp10f 5.36 * (1.06 + pow2 (cos (RM * RD)))"
  define w where "w = exp10f (- 0.4 * (- 12.73 + 0.026 * \<bar>AM sb\<bar> + 4 / 10 ^ 9 * pow4 (AM sb) + CM - MO + 43.27))
      * (1 - exp10f (- 0.4 * K sb * target_X zd))"
  have eq: "moonlight_BM sb md zd = w * (FM * C3 + 440000 * (1 - C3)) * k_BM sb"
    by (simp add: moonlight_BM_def Let_def w_def FM_def C3_def RM_def)
  have c: "0 \<le> C3" "C3 \<le> 1"
    unfolding C3_def using assms(1,3,4) by (rule extinction_C_unit)+
  have "0 \<le> exp10f 5.36 * (1.06 + pow2 (cos (RM * RD)))"
    by (intro mult_nonneg_nonneg add_nonneg_nonneg) simp_all
  moreover have "0 \<le> exp10f (6.15 - RM / 40)" by simp
  ultimately have "6.2 * 10 ^ 7 / pow2 RM \<le> FM" unfolding FM_def by linarith
  with assms(5) have f: "m \<le> FM" unfolding RM_def by linarith
  have g: "m \<le> FM * C3 + 440000 * (1 - C3)"
    using c f assms(6) by (rule scatter_mix_ge)
  have "0 \<le> w" unfolding w_def
    using sky_factor_nonneg [OF assms(1,2)] by (intro mult_nonneg_nonneg) simp_all
  then have "w * m \<le> w * (FM * C3 + 440000 * (1 - C3))"
    using g by (rule mult_left_mono [rotated])
  then have "w * m * k_BM sb \<le> w * (FM * C3 + 440000 * (1 - C3)) * k_BM sb"
    using assms(7) by (rule mult_right_mono)
  then show ?thesis unfolding eq w_def .
qed

subsection \<open>A night scene\<close>

lemma target_X_zenith_pos: "0 < target_X 0"
  by (rule target_X_pos) simp

text \<open>The night scene of the spec's end-to-end scenario, with the target at the zenith.\<close>
lemma night_scene:
  defines "s \<equiv> skybrightness_prepare 2020 6 3 0.872 100 15 50 1.74 1.91 1 1 1"
  shows "0 < K s" "K s \<le> 1" "XS s = 40" "XM s = 40" "90 < ZM s" "105 < ZS s" "ZS s \<le> 110"
proof -
  show "0 < K s" unfolding s_def by (rule prepare_K_pos) simp_all
  show "K s \<le> 1" unfolding s_def by (rule prepare_K_le) simp_all
  show "XS s = 40" unfolding s_def by (simp add: prepare_XS DR_def)
  show "XM s = 40" unfolding s_def by (simp add: prepare_XM DR_def)
  show "90 < ZM s" unfolding s_def by (simp add: DR_def)
  show "105 < ZS s" unfolding s_def by (simp add: DR_def)
  show "ZS s \<le> 110" unfolding s_def by (simp add: DR_def)
qed

lemma night_scene_twilight_below_daylight:
  defines "s \<equiv> skybrightness_prepare 2020 6 3 0.872 100 15 50 1.74 1.91 1 1 1"
  shows "twilight_BT s 1.91 0 < daylight_BD s 1.91 0"
proof -
  define w where "w = 1 - exp10f (- 0.4 * K s * target_X 0)"
  have k: "0 < K s" "K s \<le> 1" and xs: "XS s = 40" and zs: "105 < ZS s" "ZS s \<le> 110"
    unfolding s_def by (rule night_scene)+
  have rs: "max_macro (1.91 * DR) 1 = ZS s" unfolding s_def by (simp add: max_macro_def DR_def)
  have w: "0 < w" unfolding w_def using k(1) target_X_zenith_pos by (rule sky_factor_pos)
  have bt: "twilight_BT s 1.91 0 = exp10f (- 0.4 * (MS - MO + 32.5 - (90 - ZS s))) * (100 / ZS s) * w"
    unfolding twilight_BT_def Let_def rs w_def by (simp add: s_def)
  have "- 0.4 * (MS - MO + 32.5 - (90 - ZS s)) \<le> - 12"
    using zs by (simp add: MS_def MO_def)
  then have e1: "exp10f (- 0.4 * (MS - MO + 32.5 - (90 - ZS s))) \<le> exp10f (- 12)"
    by (rule exp10f_mono)
  have r: "100 / ZS s \<le> 1" using zs by simp
  have "exp10f (- 0.4 * (MS - MO + 32.5 - (90 - ZS s))) * (100 / ZS s) \<le> exp10f (- 12) * 1"
    using e1 r zs by (intro mult_mono) simp_all
  then have "twilight_BT s 1.91 0 \<le> exp10f (- 12) * 1 * w"
    unfolding bt using w by (intro mult_right_mono) simp_all
  then have up: "twilight_BT s 1.91 0 \<le> exp10f (- 12) * w" by simp
  have "ln 10 \<le> (3::real)" using ln10_lt_3 by simp
  then have "0.4 * K s * 40 * ln 10 \<le> 0.4 * 1 * 40 * 3"
    using k by (intro mult_mono) simp_all
  then have small: "0.4 * K s * XS s * ln 10 \<le> 2048" unfolding xs by simp
  have m: "1 \<le> 6.2 * 10 ^ 7 / pow2 (max_macro (1.91 * DR) 1)"
    by (simp add: max_macro_def DR_def pow2_def)
  have "exp10f (- 0.4 * (MS - MO + 43.27)) * (1 - exp10f (- 0.4 * K s * target_X 0)) * 1
      \<le> daylight_BD s 1.91 0"
    using k(1) target_X_zenith_pos xs small m
    by (intro daylight_BD_lower) simp_all
  then have lo: "exp10f (- 0.4 * (MS - MO + 43.27)) * w \<le> daylight_BD s 1.91 0"
    by (simp add: w_def)
  have "(- 12 :: real) < - 0.4 * (MS - MO + 43.27)" by (simp add: MS_def MO_def)
  then have "exp10f (- 12) < exp10f (- 0.4 * (MS - MO + 43.27))"
    by (rule exp10f_strict_mono [rotated]) simp
  then have "exp10f (- 12) * w < exp10f (- 0.4 * (MS - MO + 43.27)) * w"
    using w by (rule mult_strict_right_mono)
  with up lo show ?thesis by linarith
qed

subsection \<open>The air mass formula on the first quadrant\<close>

lemma half_pi_gt: "1.570795 < pi / 2"
proof (rule ccontr)
  assume "\<not> 1.570795 < pi / 2"
  then have a: "pi / 2 \<le> 1.570795" by simp
  have "(1.570795::real) \<le> 2" by simp
  also have "\<dots> \<le> pi" by (rule pi_ge_two)
  finally have b: "1.570795 \<le> pi" .
  have "cos 1.570795 \<le> cos (pi / 2)"
    using a b by (intro cos_monotone_0_pi_le) simp_all
  then show False using cos_1570795_pos by simp
qed

text \<open>The denominator \<open>c + 0.025 * exp (- 11 * c)\<close> of the air mass, for \<open>c = cos z \<ge> 0\<close>.\<close>
lemma airmass_denominator_mono:
  fixes a b :: real
  assumes "0 \<le> a" "a \<le> b"
  shows "a + 0.025 * exp (- 11 * a) \<le> b + 0.025 * exp (- 11 * b)"
proof -
  define t where "t = 11 * (b - a)"
  have t: "0 \<le> t" using assms by (simp add: t_def)
  have "1 + (- t) \<le> exp (- t)" by (rule exp_ge_add_one_self)
  then have u: "1 - exp (- t) \<le> t" by simp
  have u0: "0 \<le> 1 - exp (- t)" using t by simp
  have e: "exp (- 11 * a) \<le> 1" using assms(1) by simp
  have "exp (- 11 * b) = exp (- 11 * a) * exp (- t)"
    by (simp add: t_def exp_add [symmetric] algebra_simps)
  then have "exp (- 11 * a) - exp (- 11 * b) = exp (- 11 * a) * (1 - exp (- t))"
    by (simp add: algebra_simps)
  also have "\<dots> \<le> 1 * (1 - exp (- t))" using e u0 by (rule mult_right_mono)
  also have "\<dots> \<le> t" using u by simp
  finally have "exp (- 11 * a) - exp (- 11 * b) \<le> 11 * (b - a)" by (simp add: t_def)
  then have "0.025 * (exp (- 11 * a) - exp (- 11 * b)) \<le> 0.025 * (11 * (b - a))"
    by (intro mult_left_mono) simp_all
  also have "\<dots> \<le> b - a" using assms by simp
  finally show ?thesis by (simp add: algebra_simps)
qed

lemma airmass_denominator_ge:
  fixes c :: real
  assumes "0 \<le> c"
  shows "0.025 \<le> c + 0.025 * exp (- 11 * c)"
  using airmass_denominator_mono [of 0 c] assms by simp

lemma airmass_denominator_gt:
  fixes c :: real
  assumes "0 < c"
  shows "0.025 < c + 0.025 * exp (- 11 * c)"
proof -
  have "1 + (- 11 * c) \<le> exp (- 11 * c)" by (rule exp_ge_add_one_self)
  then have "0.025 * (1 + (- 11 * c)) \<le> 0.025 * exp (- 11 * c)"
    by (intro mult_left_mono) simp_all
  moreover have "c + 0.025 * (1 + (- 11 * c)) = 0.025 + 0.725 * c"
    by (simp add: field_simps)
  moreover have "0.025 < 0.025 + 0.725 * c" using assms by simp
  ultimately show ?thesis by linarith
qed

text \<open>Zenith distances of 0 to 90 degrees are angles of the first quadrant.\<close>
lemma degrees_first_quadrant:
  assumes "0 \<le> z" "z \<le> 90"
  shows "0 \<le> z * RD" "z * RD \<le> pi / 2"
proof -
  show "0 \<le> z * RD" using assms(1) by (simp add: RD_def)
  have "z * RD \<le> 90 * RD" using assms(2) by (simp add: RD_def)
  also have "\<dots> = 1.570795" by (simp add: RD_def)
  finally show "z * RD \<le> pi / 2" using half_pi_gt by linarith
qed

lemma airmass_mono:
  assumes "0 \<le> z1" "z1 \<le> z2" "z2 \<le> 90"
  shows "1 / (cos (z1 * RD) + 0.025 * exp (- 11 * cos (z1 * RD)))
       \<le> 1 / (cos (z2 * RD) + 0.025 * exp (- 11 * cos (z2 * RD)))"
proof -
  have z2: "0 \<le> z2" using assms by simp
  have q: "0 \<le> z1 * RD" "z2 * RD \<le> pi / 2"
    using degrees_first_quadrant [OF assms(1)] degrees_first_quadrant [OF z2 assms(3)] assms
    by simp_all
  have le: "z1 * RD \<le> z2 * RD" using assms(2) by (simp add: RD_def)
  have "z2 * RD \<le> pi" using q(2) pi_ge_zero by linarith
  then have c: "cos (z2 * RD) \<le> cos (z1 * RD)"
    using q(1) le by (intro cos_monotone_0_pi_le) simp_all
  have c0: "0 \<le> cos (z2 * RD)"
    using q le by (intro cos_ge_zero) linarith+
  have d: "cos (z2 * RD) + 0.025 * exp (- 11 * cos (z2 * RD))
      \<le> cos (z1 * RD) + 0.025 * exp (- 11 * cos (z1 * RD))"
    using c0 c by (rule airmass_denominator_mono)
  have "0.025 \<le> cos (z2 * RD) + 0.025 * exp (- 11 * cos (z2 * RD))"
    using c0 by (rule airmass_denominator_ge)
  then have p: "0 < cos (z2 * RD) + 0.025 * exp (- 11 * cos (z2 * RD))" by simp
  show ?thesis using p d by (intro frac_le) simp_all
qed

subsection \<open>Air masses of a prepared session\<close>

lemma airmass_formula_bounds:
  assumes "0 \<le> z" "z \<le> 90"
  shows "0 < 1 / (cos (z * RD) + 0.025 * exp (- 11 * cos (z * RD)))"
    and "1 / (cos (z * RD) + 0.025 * exp (- 11 * cos (z * RD))) \<le> 40"
proof -
  have q: "0 \<le> z * RD" "z * RD \<le> pi / 2" using assms by (rule degrees_first_quadrant)+
  have "0 \<le> cos (z * RD)" using q by (intro cos_ge_zero) linarith+
  then have d: "0.025 \<le> cos (z * RD) + 0.025 * exp (- 11 * cos (z * RD))"
    by (rule airmass_denominator_ge)
  then show "0 < 1 / (cos (z * RD) + 0.025 * exp (- 11 * cos (z * RD)))" by simp
  have "1 / (cos (z * RD) + 0.025 * exp (- 11 * cos (z * RD))) \<le> 1 / 0.025"
    using d by (intro frac_le) simp_all
  then show "1 / (cos (z * RD) + 0.025 * exp (- 11 * cos (z * RD))) \<le> 40" by simp
qed

lemma prepare_XM_bounds:
  assumes "0 \<le> dm"
  shows "0 < XM (skybrightness_prepare y m mp la al te rh dm ds kt km kn)"
    and "XM (skybrightness_prepare y m mp la al te rh dm ds kt km kn) \<le> 40"
proof -
  have z: "0 \<le> dm * DR" using assms by (simp add: DR_def)
  show "0 < XM (skybrightness_prepare y m mp la al te rh dm ds kt km kn)"
    unfolding prepare_XM using airmass_formula_bounds(1) [OF z] by simp
  show "XM (skybrightness_prepare y m mp la al te rh dm ds kt km kn) \<le> 40"
    unfolding prepare_XM using airmass_formula_bounds(2) [OF z] by simp
qed

lemma prepare_XS_bounds:
  assumes "0 \<le> ds"
  shows "0 < XS (skybrightness_prepare y m mp la al te rh dm ds kt km kn)"
    and "XS (skybrightness_prepare y m mp la al te rh dm ds kt km kn) \<le> 40"
proof -
  have z: "0 \<le> ds * DR" using assms by (simp add: DR_def)
  show "0 < XS (skybrightness_prepare y m mp la al te rh dm ds kt km kn)"
    unfolding prepare_XS using airmass_formula_bounds(1) [OF z] by simp
  show "XS (skybrightness_prepare y m mp la al te rh dm ds kt km kn) \<le> 40"
    unfolding prepare_XS using airmass_formula_bounds(2) [OF z] by simp
qed

text \<open>Within the range of the fast exponential: \<open>0.4 * K * X * ln 10 \<le> 2048\<close>.\<close>
lemma fast_range:
  fixes k x :: real
  assumes "0 \<le> k" "k * ln 10 \<le> 128" "0 \<le> x" "x \<le> 40"
  shows "0.4 * k * x * ln 10 \<le> 2048"
proof -
  have "0 \<le> k * ln 10" using assms(1) ln10_gt_2 by simp
  then have "(k * ln 10) * x \<le> 128 * 40" using assms(2,3,4) by (intro mult_mono) simp_all
  then have "0.4 * ((k * ln 10) * x) \<le> 0.4 * (128 * 40)" by (intro mult_left_mono) simp_all
  then show ?thesis by (simp add: mult_ac)
qed

subsection \<open>Cosine and exponential at the values of a target below the horizon\<close>

lemma cos_upper_16:
  fixes x :: real
  assumes "0 < x"
  shows "cos x \<le> (\<Sum>m<16. cos_coeff m * x ^ m) + x ^ 16 / fact 16"
proof -
  obtain t where t: "cos x = (\<Sum>m<16. cos_coeff m * x ^ m) + (cos (t + 1/2 * real 16 * pi) / fact 16) * x ^ 16"
    using Maclaurin_cos_expansion2 [OF assms, of 16] by auto
  define c where "c = cos (t + 1/2 * real 16 * pi)"
  have "c \<le> 1" unfolding c_def by (rule cos_le_one)
  then have "c / fact 16 \<le> 1 / fact 16"
    by (intro divide_right_mono) simp_all
  then have "(c / fact 16) * x ^ 16 \<le> (1 / fact 16) * x ^ 16"
    using assms by (intro mult_right_mono) simp_all
  then show ?thesis unfolding t c_def [symmetric] by simp
qed

lemma cos_167_bounds: "- 0.0991 \<le> cos (1.67::real)" "cos (1.67::real) \<le> - 0.099"
proof -
  define x :: real where "x = 167 / 100"
  have x: "0 < x" by (simp add: x_def)
  have lo: "(\<Sum>m<16. cos_coeff m * x ^ m) - x ^ 16 / fact 16 \<le> cos x"
    using x by (rule cos_lower_16)
  have up: "cos x \<le> (\<Sum>m<16. cos_coeff m * x ^ m) + x ^ 16 / fact 16"
    using x by (rule cos_upper_16)
  have "- 0.0991 \<le> (\<Sum>m<16. cos_coeff m * x ^ m) - x ^ 16 / fact 16"
    unfolding cos_poly_16 x_def by (simp add: fact_numeral power_divide)
  with lo have "- 0.0991 \<le> cos x" by linarith
  then show "- 0.0991 \<le> cos (1.67::real)" by (simp add: x_def)
  have "(\<Sum>m<16. cos_coeff m * x ^ m) + x ^ 16 / fact 16 \<le> - 0.099"
    unfolding cos_poly_16 x_def by (simp add: fact_numeral power_divide)
  with up have "cos x \<le> - 0.099" by linarith
  then show "cos (1.67::real) \<le> - 0.099" by (simp add: x_def)
qed

lemma exp_10901_le: "exp (1.0901::real) \<le> 3.2"
proof -
  define x :: real where "x = 10901 / 160000"
  have "exp x \<le> 1 + x + x\<^sup>2" by (rule exp_bound) (simp_all add: x_def)
  then have "exp x ^ 16 \<le> (1 + x + x\<^sup>2) ^ 16" by (intro power_mono) simp_all
  moreover have "exp x ^ 16 = exp (16 * x)" by (simp add: exp_of_nat_mult [symmetric])
  moreover have "(1 + x + x\<^sup>2) ^ 16 \<le> 3.2"
    unfolding x_def by (simp add: power2_eq_square power_divide)
  ultimately have "exp (16 * x) \<le> 3.2" by linarith
  then show ?thesis by (simp add: x_def)
qed

lemma fast_expf_le_exp:
  assumes "- 1024 \<le> x"
  shows "fast_expf x \<le> exp x"
proof -
  have "(1 + x / real 1024) ^ 1024 \<le> exp x"
    using assms by (intro exp_ge_one_plus_x_over_n_power_n) simp_all
  then show ?thesis unfolding fast_expf_power by simp
qed

lemma fast_expf_ge_one:
  assumes "0 \<le> x"
  shows "1 \<le> fast_expf x"
  unfolding fast_expf_power using assms by (intro one_le_power) simp

lemma fast_exp10f_le_exp10f:
  assumes "0 \<le> x"
  shows "fast_exp10f x \<le> exp10f x"
proof -
  have "0 \<le> x * ln 10" using assms ln10_gt_2 by simp
  then have "- 1024 \<le> x * ln 10" by linarith
  then have "fast_expf (x * ln 10) \<le> exp (x * ln 10)" by (rule fast_expf_le_exp)
  moreover have "exp10f x = exp (x * ln 10)" using assms by (intro exp10f_exp) simp
  ultimately show ?thesis unfolding fast_exp10f_def by simp
qed

text \<open>A target 95.7 degrees from the zenith: the air mass of line 130 is negative.\<close>
lemma target_X_167: "target_X 1.67 \<le> - 12.5"
proof -
  define c :: real where "c = cos 1.67"
  define F where "F = fast_expf (- 11 * c)"
  have c: "- 0.0991 \<le> c" "c \<le> - 0.099" unfolding c_def by (rule cos_167_bounds)+
  have y: "0 \<le> - 11 * c" "- 11 * c \<le> 1.0901" using c by simp_all
  have F1: "1 \<le> F" unfolding F_def using y(1) by (rule fast_expf_ge_one)
  have "F \<le> exp (- 11 * c)" unfolding F_def using y(1) by (intro fast_expf_le_exp) linarith
  also have "\<dots> \<le> exp 1.0901" using y(2) by simp
  also have "\<dots> \<le> 3.2" by (rule exp_10901_le)
  finally have F2: "F \<le> 3.2" .
  define d where "d = c + 0.025 * F"
  have d1: "- 0.08 \<le> d" unfolding d_def using c(1) F1 by simp
  have d2: "d < 0" unfolding d_def using c(2) F2 by simp
  have "1 / d \<le> - 12.5" using d1 d2 by (simp add: field_simps)
  moreover have "target_X 1.67 = 1 / d"
    by (simp add: target_X_def Let_def d_def F_def c_def)
  ultimately show ?thesis by simp
qed

lemma prepare_K_ge_rayleigh:
  assumes "0 < rh" "rh < 100" "\<bar>la\<bar> \<le> 2"
  shows "0.1066 * expf (- al / 8200) \<le> K (skybrightness_prepare y m mp la al te rh dm ds kt km kn)"
proof -
  define ra where "ra = (real_of_int m - 3) * 30 * RD"
  define kr where "kr = 0.1066 * expf (- al / 8200)"
  define ka where "ka = 0.1 * expf (- al / 1500) * powf (1 - 0.32 / ln (rh / 100)) 1.33
              * (1 + 0.33 * (if la * DR > 0 then 1 else - 1) * sin ra)"
  define ko where "ko = OZ * (3 + 0.4 * (la * cos ra - cos (3 * la))) / 3"
  define kw where "kw = WT * 0.94 * (rh / 100) * expf (te / 15) * expf (- al / 8200)"
  have eq: "K (skybrightness_prepare y m mp la al te rh dm ds kt km kn) = kr + ka + ko + kw"
    unfolding prepare_K kr_def ka_def ko_def kw_def ra_def ..
  have ka: "0 \<le> ka" unfolding ka_def using assms(1,2) by (rule aerosol_nonneg)
  define t where "t = la * cos ra - cos (3 * la)"
  have "\<bar>t\<bar> \<le> 3" unfolding t_def using assms(3) by (rule ozone_inner_bounds)
  then have "0 \<le> 0.031 * (3 + 0.4 * t) / 3" by (simp add: field_simps)
  then have ko: "0 \<le> ko" by (simp only: ko_def OZ_def t_def)
  have kw: "0 \<le> kw" using assms(1) by (simp add: kw_def WT_def)
  show ?thesis unfolding eq kr_def [symmetric] using ka ko kw by linarith
qed

lemma night_scene_K_ge: "0.1 \<le> K (skybrightness_prepare 2020 6 3 0.872 100 15 50 1.74 1.91 1 1 1)"
proof -
  have "1 + (- 100 / 8200) \<le> exp (- 100 / 8200 :: real)" by (rule exp_ge_add_one_self)
  moreover have "expf (- 100 / 8200) = exp (- 100 / 8200)" by (rule expf_exp) simp
  ultimately have "0.1 \<le> 0.1066 * expf (- 100 / 8200 :: real)" by simp
  moreover have "0.1066 * expf (- 100 / 8200)
      \<le> K (skybrightness_prepare 2020 6 3 0.872 100 15 50 1.74 1.91 1 1 1)"
    by (rule prepare_K_ge_rayleigh) simp_all
  ultimately show ?thesis by linarith
qed

subsection \<open>Signs of the four brightness terms\<close>

lemma dark_night_factor_bounds:
  fixes t z :: real
  shows "0 \<le> BO * (1 + 0.3 * cos t) * (0.4 + 0.6 / sqrt (1 - 0.96 * powf (sin z) 2))"
    and "BO * (1 + 0.3 * cos t) * (0.4 + 0.6 / sqrt (1 - 0.96 * powf (sin z) 2)) \<le> 1 / 10 ^ 12"
proof -
  define a where "a = BO * (1 + 0.3 * cos t)"
  define r where "r = sqrt (1 - 0.96 * powf (sin z) 2)"
  have c: "- 1 \<le> cos t" "cos t \<le> 1" by simp_all
  have a0: "0 \<le> a" unfolding a_def BO_def by (simp; (use c in linarith))
  have a1: "a \<le> 1.3 / 10 ^ 13" unfolding a_def BO_def by (simp; (use c in linarith))
  have "(sin z)\<^sup>2 \<le> 1" by (simp add: abs_square_le_1)
  then have "0.04 \<le> 1 - 0.96 * (sin z)\<^sup>2" by simp
  then have "sqrt 0.04 \<le> r" unfolding r_def by (simp only: powf_two real_sqrt_le_iff)
  moreover have "sqrt 0.04 = 0.2"
    by (rule real_sqrt_unique) (simp_all add: power2_eq_square)
  ultimately have r: "0.2 \<le> r" by simp
  then have "0.6 / r \<le> 0.6 / 0.2" by (intro divide_left_mono) simp_all
  then have q1: "0.4 + 0.6 / r \<le> 3.4" by simp
  have q0: "0 \<le> 0.4 + 0.6 / r" using r by (intro add_nonneg_nonneg divide_nonneg_nonneg) simp_all
  show "0 \<le> BO * (1 + 0.3 * cos t) * (0.4 + 0.6 / sqrt (1 - 0.96 * powf (sin z) 2))"
    using a0 q0 unfolding a_def r_def by (rule mult_nonneg_nonneg)
  have "a * (0.4 + 0.6 / r) \<le> (1.3 / 10 ^ 13) * 3.4"
    using a1 q1 a0 q0 by (intro mult_mono) simp_all
  also have "\<dots> \<le> 1 / 10 ^ 12" by simp
  finally show "BO * (1 + 0.3 * cos t) * (0.4 + 0.6 / sqrt (1 - 0.96 * powf (sin z) 2)) \<le> 1 / 10 ^ 12"
    unfolding a_def r_def .
qed

lemma dark_night_BN_eq:
  "dark_night_BN sb zd =
     BO * (1 + 0.3 * cos (6.283 * (real_of_int (Y sb) - 1992) / 11))
       * (0.4 + 0.6 / sqrt (1 - 0.96 * powf (sin zd) 2))
       * fast_exp10f (- 0.4 * K sb * target_X zd) * k_BN sb"
  by (simp add: dark_night_BN_def Let_def)

lemma dark_night_BN_nonneg:
  assumes "0 \<le> k_BN sb"
  shows "0 \<le> dark_night_BN sb zd"
  unfolding dark_night_BN_eq
  by (rule mult_nonneg_nonneg
      [OF mult_nonneg_nonneg [OF dark_night_factor_bounds(1) fast_exp10f_nonneg] assms])

lemma twilight_BT_nonneg:
  assumes "0 \<le> K sb" "0 \<le> target_X zd" "0 \<le> k_BT sb"
  shows "0 \<le> twilight_BT sb sd zd"
proof -
  have "0 \<le> 100 / max_macro (sd * DR) 1"
    using max_macro_ge_one [of "sd * DR"] by simp
  then show ?thesis
    unfolding twilight_BT_def Let_def
    using sky_factor_nonneg [OF assms(1,2)] assms(3)
    by (intro mult_nonneg_nonneg) simp_all
qed

lemma daylight_BD_nonneg:
  assumes "0 \<le> K sb" "0 \<le> target_X zd" "0 \<le> XS sb" "0.4 * K sb * XS sb * ln 10 \<le> 2048"
  shows "0 \<le> daylight_BD sb sd zd"
proof -
  have "0 \<le> 6.2 * 10 ^ 7 / pow2 (max_macro (sd * DR) 1)" by simp
  then have "exp10f (- 0.4 * (MS - MO + 43.27)) * (1 - exp10f (- 0.4 * K sb * target_X zd)) * 0
           \<le> daylight_BD sb sd zd"
    using assms by (intro daylight_BD_lower) simp_all
  then show ?thesis by simp
qed

lemma moonlight_BM_nonneg:
  assumes "0 \<le> K sb" "0 \<le> target_X zd" "0 \<le> XM sb" "0.4 * K sb * XM sb * ln 10 \<le> 2048"
    and "0 \<le> k_BM sb"
  shows "0 \<le> moonlight_BM sb md zd"
proof -
  have "0 \<le> 6.2 * 10 ^ 7 / pow2 (max_macro (md * DR) 1)" by simp
  then have "exp10f (- 0.4 * (- 12.73 + 0.026 * \<bar>AM sb\<bar> + 4 / 10 ^ 9 * pow4 (AM sb) + CM - MO + 43.27))
           * (1 - exp10f (- 0.4 * K sb * target_X zd)) * 0 * k_BM sb
           \<le> moonlight_BM sb md zd"
    using assms by (intro moonlight_BM_lower) simp_all
  then show ?thesis by simp
qed

lemma total_B_nonneg:
  assumes "0 \<le> dark_night_BN sb zd" "0 \<le> twilight_BT sb sd zd" "0 \<le> daylight_BD sb sd zd"
    and "0 \<le> moonlight_BM sb md zd"
  shows "0 \<le> total_B sb md sd zd"
proof -
  have "0 \<le> min (twilight_BT sb sd zd) (daylight_BD sb sd zd)" using assms(2,3) by simp
  moreover have "0 \<le> (if ZM sb < 80 then moonlight_BM sb md zd
        else if ZM sb > 80 \<and> ZM sb \<le> 90
             then moonlight_BM sb md zd * (90 - ZM sb) / 10
             else 0)"
    using assms(4) by simp
  ultimately show ?thesis unfolding total_B_eq using assms(1) by linarith
qed

lemma exp10f_minus_12: "exp10f (- 12) = 1 / 10 ^ 12"
proof -
  have "exp10f (- 12) = inverse (exp (real 12 * ln 10))"
    by (simp add: exp10f_exp exp_minus)
  also have "\<dots> = inverse (exp (ln 10) ^ 12)" by (simp only: exp_of_nat_mult)
  also have "\<dots> = 1 / 10 ^ 12" by (simp add: inverse_eq_divide)
  finally show ?thesis .
qed


subsection \<open>Sign of the returned luminance\<close>

text \<open>
  For a session prepared with humidity inside the interval, zenith distances of Moon and Sun
  and scale coefficients that are not negative, and an extinction within the range of the
  fast exponential, the luminance of a target that is not below the horizon is not
  negative.
\<close>
lemma luminance_nonneg_above_horizon:
  assumes "0 < rh" "rh < 100"
    and "0 \<le> K (skybrightness_prepare y m mp la al te rh dm ds kt km kn)"
    and "K (skybrightness_prepare y m mp la al te rh dm ds kt km kn) * ln 10 \<le> 128"
    and "0 \<le> dm" "0 \<le> ds" "0 \<le> kt" "0 \<le> km" "0 \<le> kn"
    and "0 \<le> cos (zenith_dist * DR * RD)"
  shows "0 \<le> skybrightness_get_luminance
           (skybrightness_prepare y m mp la al te rh dm ds kt km kn) moon_dist sun_dist zenith_dist"
proof -
  let ?s = "skybrightness_prepare y m mp la al te rh dm ds kt km kn"
  have "0 \<le> cos zenith_dist" using assms(10) by simp
  then have x: "0 \<le> target_X zenith_dist" using target_X_pos [of zenith_dist] by simp
  have xm: "0 \<le> XM ?s" "XM ?s \<le> 40"
    using prepare_XM_bounds [OF assms(5), of y m mp la al te rh ds kt km kn] by simp_all
  have xs: "0 \<le> XS ?s" "XS ?s \<le> 40"
    using prepare_XS_bounds [OF assms(6), of y m mp la al te rh dm kt km kn] by simp_all
  have rm: "0.4 * K ?s * XM ?s * ln 10 \<le> 2048" using assms(3,4) xm by (rule fast_range)
  have rs: "0.4 * K ?s * XS ?s * ln 10 \<le> 2048" using assms(3,4) xs by (rule fast_range)
  have bn: "0 \<le> dark_night_BN ?s zenith_dist"
    using assms(9) by (intro dark_night_BN_nonneg) simp
  have bt: "0 \<le> twilight_BT ?s sun_dist zenith_dist"
    using assms(3) x assms(7) by (intro twilight_BT_nonneg) simp_all
  have bd: "0 \<le> daylight_BD ?s sun_dist zenith_dist"
    using assms(3) x xs(1) rs by (rule daylight_BD_nonneg)
  have bm: "0 \<le> moonlight_BM ?s moon_dist zenith_dist"
    using assms(3) x xm(1) rm assms(8) by (intro moonlight_BM_nonneg) simp_all
  have "0 \<le> total_B ?s moon_dist sun_dist zenith_dist"
    using bn bt bd bm by (rule total_B_nonneg)
  then show ?thesis
    by (simp add: skybrightness_get_luminance_def Let_def NLAMBERT_TO_CDM2_def)
qed

text \<open>
  For a target 95.7 degrees from the zenith in the night scene the air mass of line 130 is
  negative, the factor \<open>1 - exp10f (- 0.4 * K * X)\<close> of the daylight term is negative, and
  so is the returned luminance.
\<close>
lemma luminance_negative_below_horizon:
  "0 < K (skybrightness_prepare 2020 6 3 0.872 100 15 50 1.74 1.91 1 1 1) \<and> skybrightness_get_luminance (skybrightness_prepare 2020 6 3 0.872 100 15 50 1.74 1.91 1 1 1) 1 1 1.67 < 0"
proof -
  define X where "X = target_X 1.67"
  define E where "E = exp10f (- 0.4 * K (skybrightness_prepare 2020 6 3 0.872 100 15 50 1.74 1.91 1 1 1) * X)"
  define G where "G = daylight_BD (skybrightness_prepare 2020 6 3 0.872 100 15 50 1.74 1.91 1 1 1) 1 1.67"
  have k: "0 < K (skybrightness_prepare 2020 6 3 0.872 100 15 50 1.74 1.91 1 1 1)" "K (skybrightness_prepare 2020 6 3 0.872 100 15 50 1.74 1.91 1 1 1) \<le> 1" and xs: "XS (skybrightness_prepare 2020 6 3 0.872 100 15 50 1.74 1.91 1 1 1) = 40" and zm: "90 < ZM (skybrightness_prepare 2020 6 3 0.872 100 15 50 1.74 1.91 1 1 1)"
    by (rule night_scene)+
  have kg: "0.1 \<le> K (skybrightness_prepare 2020 6 3 0.872 100 15 50 1.74 1.91 1 1 1)" by (rule night_scene_K_ge)
  have x: "X \<le> - 12.5" unfolding X_def by (rule target_X_167)
  have kx: "0.1 * 12.5 \<le> K (skybrightness_prepare 2020 6 3 0.872 100 15 50 1.74 1.91 1 1 1) * (- X)" using kg x by (intro mult_mono) simp_all
  define v where "v = - 0.4 * K (skybrightness_prepare 2020 6 3 0.872 100 15 50 1.74 1.91 1 1 1) * X"
  have u: "0.5 \<le> v" unfolding v_def using kx by simp
  have l: "2 \<le> ln (10::real)" using ln10_gt_2 by simp
  have "0.5 * 2 \<le> v * ln 10" using u l by (intro mult_mono) simp_all
  then have vl: "1 \<le> v * ln 10" by simp
  then have "expf (v * ln 10) = exp (v * ln 10)" by (intro expf_exp) linarith
  then have "exp 1 \<le> E" unfolding E_def exp10f_def v_def [symmetric] using vl by simp
  moreover have "1 + 1 \<le> exp (1::real)" by (rule exp_ge_add_one_self)
  ultimately have E: "2 \<le> E" by linarith
  have f: "fast_exp10f (- 0.4 * K (skybrightness_prepare 2020 6 3 0.872 100 15 50 1.74 1.91 1 1 1) * X) \<le> E" unfolding E_def
    using u unfolding v_def by (intro fast_exp10f_le_exp10f) linarith
  have "BO * (1 + 0.3 * cos (6.283 * (real_of_int (Y (skybrightness_prepare 2020 6 3 0.872 100 15 50 1.74 1.91 1 1 1)) - 1992) / 11))
       * (0.4 + 0.6 / sqrt (1 - 0.96 * powf (sin 1.67) 2))
       * fast_exp10f (- 0.4 * K (skybrightness_prepare 2020 6 3 0.872 100 15 50 1.74 1.91 1 1 1) * X) \<le> 1 / 10 ^ 12 * E"
    by (rule mult_mono [OF dark_night_factor_bounds(2) f _ fast_exp10f_nonneg]) simp
  then have bn: "dark_night_BN (skybrightness_prepare 2020 6 3 0.872 100 15 50 1.74 1.91 1 1 1) 1.67 \<le> 1 / 10 ^ 12 * E"
    unfolding dark_night_BN_eq X_def [symmetric] by simp
  define C4 where "C4 = fast_exp10f (- 0.4 * K (skybrightness_prepare 2020 6 3 0.872 100 15 50 1.74 1.91 1 1 1) * XS (skybrightness_prepare 2020 6 3 0.872 100 15 50 1.74 1.91 1 1 1))"
  define FS where "FS = 6.2 * 10 ^ 7 / pow2 (max_macro (1 * DR) 1)
      + fast_exp10f (6.15 - max_macro (1 * DR) 1 / 40)
      + fast_exp10f 5.36 * (1.06 + pow2 (cos (max_macro (1 * DR) 1 * RD)))"
  define eD where "eD = exp10f (- 0.4 * (MS - MO + 43.27))"
  have bd_eq: "daylight_BD (skybrightness_prepare 2020 6 3 0.872 100 15 50 1.74 1.91 1 1 1) 1 1.67 = eD * (1 - E) * (FS * C4 + 440000 * (1 - C4))"
    by (simp add: daylight_BD_def Let_def eD_def E_def X_def FS_def C4_def)
  have "K (skybrightness_prepare 2020 6 3 0.872 100 15 50 1.74 1.91 1 1 1) * ln 10 \<le> 1 * 3" using k ln10_lt_3 by (intro mult_mono) simp_all
  then have kl: "K (skybrightness_prepare 2020 6 3 0.872 100 15 50 1.74 1.91 1 1 1) * ln 10 \<le> 128" by linarith
  have k0: "0 \<le> K (skybrightness_prepare 2020 6 3 0.872 100 15 50 1.74 1.91 1 1 1)" using k(1) by (rule less_imp_le)
  have xs0: "0 \<le> XS (skybrightness_prepare 2020 6 3 0.872 100 15 50 1.74 1.91 1 1 1)" "XS (skybrightness_prepare 2020 6 3 0.872 100 15 50 1.74 1.91 1 1 1) \<le> 40" unfolding xs by simp_all
  have "0.4 * K (skybrightness_prepare 2020 6 3 0.872 100 15 50 1.74 1.91 1 1 1) * XS (skybrightness_prepare 2020 6 3 0.872 100 15 50 1.74 1.91 1 1 1) * ln 10 \<le> 2048"
    by (rule fast_range [OF k0 kl xs0])
  then have c: "0 \<le> C4" "C4 \<le> 1" unfolding C4_def
    by (rule extinction_C_unit [OF k0 xs0(1)])+
  have "0 \<le> fast_exp10f 5.36 * (1.06 + pow2 (cos (max_macro (1 * DR) 1 * RD)))"
    by (intro mult_nonneg_nonneg add_nonneg_nonneg fast_exp10f_nonneg) simp_all
  moreover have "0 \<le> fast_exp10f (6.15 - max_macro (1 * DR) 1 / 40)" by (rule fast_exp10f_nonneg)
  moreover have "5000 \<le> 6.2 * 10 ^ 7 / pow2 (max_macro (1 * DR) 1)"
    by (simp add: max_macro_def DR_def pow2_def)
  ultimately have "5000 \<le> FS" unfolding FS_def by linarith
  then have g: "5000 \<le> FS * C4 + 440000 * (1 - C4)"
    using c by (intro scatter_mix_ge) simp_all
  have "(- 12 :: real) \<le> - 0.4 * (MS - MO + 43.27)" by (simp add: MS_def MO_def)
  then have "exp10f (- 12) \<le> eD" unfolding eD_def by (rule exp10f_mono)
  then have e: "1 / 10 ^ 12 \<le> eD" by (simp only: exp10f_minus_12)
  have n: "1 - E \<le> 0" using E by simp
  have "eD * (1 - E) \<le> (1 / 10 ^ 12) * (1 - E)" using e n by (rule mult_right_mono_neg)
  moreover have "(1 / 10 ^ 12) * (1 - E) \<le> 0" using n by (simp add: mult_le_0_iff)
  ultimately have en: "eD * (1 - E) \<le> (1 / 10 ^ 12) * (1 - E)" "eD * (1 - E) \<le> 0" by linarith+
  have "eD * (1 - E) * (FS * C4 + 440000 * (1 - C4)) \<le> eD * (1 - E) * 5000"
    using g en(2) by (rule mult_left_mono_neg)
  also have "\<dots> \<le> (1 / 10 ^ 12) * (1 - E) * 5000" using en(1) by simp
  finally have bd: "daylight_BD (skybrightness_prepare 2020 6 3 0.872 100 15 50 1.74 1.91 1 1 1) 1 1.67 \<le> (1 / 10 ^ 12) * (1 - E) * 5000"
    unfolding bd_eq .
  have "total_B (skybrightness_prepare 2020 6 3 0.872 100 15 50 1.74 1.91 1 1 1) 1 1 1.67 =
      dark_night_BN (skybrightness_prepare 2020 6 3 0.872 100 15 50 1.74 1.91 1 1 1) 1.67 + min (twilight_BT (skybrightness_prepare 2020 6 3 0.872 100 15 50 1.74 1.91 1 1 1) 1 1.67) (daylight_BD (skybrightness_prepare 2020 6 3 0.872 100 15 50 1.74 1.91 1 1 1) 1 1.67)"
    unfolding total_B_eq using zm by simp
  also have "\<dots> \<le> dark_night_BN (skybrightness_prepare 2020 6 3 0.872 100 15 50 1.74 1.91 1 1 1) 1.67 + daylight_BD (skybrightness_prepare 2020 6 3 0.872 100 15 50 1.74 1.91 1 1 1) 1 1.67" by simp
  also have "\<dots> \<le> 1 / 10 ^ 12 * E + (1 / 10 ^ 12) * (1 - E) * 5000"
    using bn bd by linarith
  also have "\<dots> < 0" using E by (simp add: field_simps)
  finally have "total_B (skybrightness_prepare 2020 6 3 0.872 100 15 50 1.74 1.91 1 1 1) 1 1 1.67 < 0" .
  then have "skybrightness_get_luminance (skybrightness_prepare 2020 6 3 0.872 100 15 50 1.74 1.91 1 1 1) 1 1 1.67 < 0"
    by (simp add: skybrightness_get_luminance_def Let_def NLAMBERT_TO_CDM2_def field_simps)
  with k(1) show ?thesis by blast
qed

section \<open>The claims\<close>

subsection \<open>C1: how the twilight and daylight terms enter the total\<close>

text \<open>
  Claim C1, as amended.  The total brightness before the unit conversion is the dark-night
  term plus the smaller of the twilight term and the daylight term, plus the conditional
  moonlight term: when the daylight term exceeds the twilight term, the twilight term is
  the one in the sum, and otherwise the daylight term is.
\<close>
theorem total_B_takes_smaller_sun_term:
  "total_B sb moon_dist sun_dist zenith_dist =
     dark_night_BN sb zenith_dist
     + min (twilight_BT sb sun_dist zenith_dist) (daylight_BD sb sun_dist zenith_dist)
     + (if ZM sb < 80 then moonlight_BM sb moon_dist zenith_dist
        else if ZM sb > 80 \<and> ZM sb \<le> 90
             then moonlight_BM sb moon_dist zenith_dist * (90 - ZM sb) / 10
             else 0)"
  by (simp add: total_B_def Let_def min_def)

text \<open>
  Claim C1 as stated (the larger of the two terms) fails in the night scene: the daylight
  term exceeds the twilight term there, and the total contains the twilight term.
\<close>
theorem total_B_larger_sun_term_counterexample:
  "twilight_BT (skybrightness_prepare 2020 6 3 0.872 100 15 50 1.74 1.91 1 1 1) 1.91 0 < daylight_BD (skybrightness_prepare 2020 6 3 0.872 100 15 50 1.74 1.91 1 1 1) 1.91 0
   \<and> total_B (skybrightness_prepare 2020 6 3 0.872 100 15 50 1.74 1.91 1 1 1) 1.74 1.91 0 = dark_night_BN (skybrightness_prepare 2020 6 3 0.872 100 15 50 1.74 1.91 1 1 1) 0 + twilight_BT (skybrightness_prepare 2020 6 3 0.872 100 15 50 1.74 1.91 1 1 1) 1.91 0
   \<and> total_B (skybrightness_prepare 2020 6 3 0.872 100 15 50 1.74 1.91 1 1 1) 1.74 1.91 0 \<noteq>
       dark_night_BN (skybrightness_prepare 2020 6 3 0.872 100 15 50 1.74 1.91 1 1 1) 0
       + max (twilight_BT (skybrightness_prepare 2020 6 3 0.872 100 15 50 1.74 1.91 1 1 1) 1.91 0) (daylight_BD (skybrightness_prepare 2020 6 3 0.872 100 15 50 1.74 1.91 1 1 1) 1.91 0)
       + (if ZM (skybrightness_prepare 2020 6 3 0.872 100 15 50 1.74 1.91 1 1 1) < 80 then moonlight_BM (skybrightness_prepare 2020 6 3 0.872 100 15 50 1.74 1.91 1 1 1) 1.74 0
          else if ZM (skybrightness_prepare 2020 6 3 0.872 100 15 50 1.74 1.91 1 1 1) > 80 \<and> ZM (skybrightness_prepare 2020 6 3 0.872 100 15 50 1.74 1.91 1 1 1) \<le> 90
               then moonlight_BM (skybrightness_prepare 2020 6 3 0.872 100 15 50 1.74 1.91 1 1 1) 1.74 0 * (90 - ZM (skybrightness_prepare 2020 6 3 0.872 100 15 50 1.74 1.91 1 1 1)) / 10
               else 0)"
proof -
  have lt: "twilight_BT (skybrightness_prepare 2020 6 3 0.872 100 15 50 1.74 1.91 1 1 1) 1.91 0 < daylight_BD (skybrightness_prepare 2020 6 3 0.872 100 15 50 1.74 1.91 1 1 1) 1.91 0"
    by (rule night_scene_twilight_below_daylight)
  have zm: "90 < ZM (skybrightness_prepare 2020 6 3 0.872 100 15 50 1.74 1.91 1 1 1)" by (rule night_scene)
  have eq: "total_B (skybrightness_prepare 2020 6 3 0.872 100 15 50 1.74 1.91 1 1 1) 1.74 1.91 0 = dark_night_BN (skybrightness_prepare 2020 6 3 0.872 100 15 50 1.74 1.91 1 1 1) 0 + twilight_BT (skybrightness_prepare 2020 6 3 0.872 100 15 50 1.74 1.91 1 1 1) 1.91 0"
    unfolding total_B_eq using lt zm by simp
  have mx: "max (twilight_BT (skybrightness_prepare 2020 6 3 0.872 100 15 50 1.74 1.91 1 1 1) 1.91 0) (daylight_BD (skybrightness_prepare 2020 6 3 0.872 100 15 50 1.74 1.91 1 1 1) 1.91 0) = daylight_BD (skybrightness_prepare 2020 6 3 0.872 100 15 50 1.74 1.91 1 1 1) 1.91 0"
    using lt by simp
  have mo: "(if ZM (skybrightness_prepare 2020 6 3 0.872 100 15 50 1.74 1.91 1 1 1) < 80 then moonlight_BM (skybrightness_prepare 2020 6 3 0.872 100 15 50 1.74 1.91 1 1 1) 1.74 0
          else if ZM (skybrightness_prepare 2020 6 3 0.872 100 15 50 1.74 1.91 1 1 1) > 80 \<and> ZM (skybrightness_prepare 2020 6 3 0.872 100 15 50 1.74 1.91 1 1 1) \<le> 90
               then moonlight_BM (skybrightness_prepare 2020 6 3 0.872 100 15 50 1.74 1.91 1 1 1) 1.74 0 * (90 - ZM (skybrightness_prepare 2020 6 3 0.872 100 15 50 1.74 1.91 1 1 1)) / 10
               else 0) = 0"
    using zm by simp
  show ?thesis unfolding mx mo using lt eq by simp
qed

subsection \<open>C2: the Moon blend at its 80-degree end\<close>

text \<open>
  Claim C2.  The Moon term is added in full below 80 degrees of Moon zenith distance and
  with weight \<open>(90 - ZM) / 10\<close> above 80 up to 90, so the weight tends to 1 on both sides
  of 80 degrees.  At exactly 80 degrees neither branch is taken: in the session below the
  Moon stands at 80 degrees, its term is positive, and the total is the Moon-free sum, a
  gap of the whole Moon term at the boundary that the blend was written to smooth.
\<close>
theorem moon_blend_gap_at_80:
  "ZM (skybrightness_prepare 2020 6 0 0.872 100 15 50 (314159 / 225000) 1.91 1 1 1) = 80
   \<and> 0 < moonlight_BM (skybrightness_prepare 2020 6 0 0.872 100 15 50 (314159 / 225000) 1.91 1 1 1) (314159 / 225000) 0
   \<and> total_B (skybrightness_prepare 2020 6 0 0.872 100 15 50 (314159 / 225000) 1.91 1 1 1) (314159 / 225000) 1.91 0 =
       dark_night_BN (skybrightness_prepare 2020 6 0 0.872 100 15 50 (314159 / 225000) 1.91 1 1 1) 0 + min (twilight_BT (skybrightness_prepare 2020 6 0 0.872 100 15 50 (314159 / 225000) 1.91 1 1 1) 1.91 0) (daylight_BD (skybrightness_prepare 2020 6 0 0.872 100 15 50 (314159 / 225000) 1.91 1 1 1) 1.91 0)
   \<and> total_B (skybrightness_prepare 2020 6 0 0.872 100 15 50 (314159 / 225000) 1.91 1 1 1) (314159 / 225000) 1.91 0 \<noteq>
       dark_night_BN (skybrightness_prepare 2020 6 0 0.872 100 15 50 (314159 / 225000) 1.91 1 1 1) 0 + min (twilight_BT (skybrightness_prepare 2020 6 0 0.872 100 15 50 (314159 / 225000) 1.91 1 1 1) 1.91 0) (daylight_BD (skybrightness_prepare 2020 6 0 0.872 100 15 50 (314159 / 225000) 1.91 1 1 1) 1.91 0)
       + moonlight_BM (skybrightness_prepare 2020 6 0 0.872 100 15 50 (314159 / 225000) 1.91 1 1 1) (314159 / 225000) 0"
proof -
  define w where "w = exp10f (- 0.4 * (- 12.73 + 0.026 * \<bar>AM (skybrightness_prepare 2020 6 0 0.872 100 15 50 (314159 / 225000) 1.91 1 1 1)\<bar> + 4 / 10 ^ 9 * pow4 (AM (skybrightness_prepare 2020 6 0 0.872 100 15 50 (314159 / 225000) 1.91 1 1 1)) + CM - MO + 43.27))
      * (1 - exp10f (- 0.4 * K (skybrightness_prepare 2020 6 0 0.872 100 15 50 (314159 / 225000) 1.91 1 1 1) * target_X 0))"
  have zm: "ZM (skybrightness_prepare 2020 6 0 0.872 100 15 50 (314159 / 225000) 1.91 1 1 1) = 80" by (simp add: DR_def)
  have k: "0 < K (skybrightness_prepare 2020 6 0 0.872 100 15 50 (314159 / 225000) 1.91 1 1 1)" by (rule prepare_K_pos) simp_all
  have k1: "K (skybrightness_prepare 2020 6 0 0.872 100 15 50 (314159 / 225000) 1.91 1 1 1) \<le> 1" by (rule prepare_K_le) simp_all
  have "K (skybrightness_prepare 2020 6 0 0.872 100 15 50 (314159 / 225000) 1.91 1 1 1) * ln 10 \<le> 1 * 3" using k k1 ln10_lt_3 by (intro mult_mono) simp_all
  then have kl: "K (skybrightness_prepare 2020 6 0 0.872 100 15 50 (314159 / 225000) 1.91 1 1 1) * ln 10 \<le> 128" by simp
  have xm: "0 < XM (skybrightness_prepare 2020 6 0 0.872 100 15 50 (314159 / 225000) 1.91 1 1 1)" "XM (skybrightness_prepare 2020 6 0 0.872 100 15 50 (314159 / 225000) 1.91 1 1 1) \<le> 40" by (rule prepare_XM_bounds, simp)+
  have small: "0.4 * K (skybrightness_prepare 2020 6 0 0.872 100 15 50 (314159 / 225000) 1.91 1 1 1) * XM (skybrightness_prepare 2020 6 0 0.872 100 15 50 (314159 / 225000) 1.91 1 1 1) * ln 10 \<le> 2048"
    using k kl xm by (intro fast_range) simp_all
  have m: "1 \<le> 6.2 * 10 ^ 7 / pow2 (max_macro ((314159 / 225000) * DR) 1)"
    by (simp add: max_macro_def DR_def pow2_def)
  have "w * 1 * k_BM (skybrightness_prepare 2020 6 0 0.872 100 15 50 (314159 / 225000) 1.91 1 1 1) \<le> moonlight_BM (skybrightness_prepare 2020 6 0 0.872 100 15 50 (314159 / 225000) 1.91 1 1 1) (314159 / 225000) 0"
    unfolding w_def using k xm(1) small m target_X_zenith_pos
    by (intro moonlight_BM_lower) simp_all
  moreover have "0 < exp10f (- 0.4 * (- 12.73 + 0.026 * \<bar>AM (skybrightness_prepare 2020 6 0 0.872 100 15 50 (314159 / 225000) 1.91 1 1 1)\<bar> + 4 / 10 ^ 9 * pow4 (AM (skybrightness_prepare 2020 6 0 0.872 100 15 50 (314159 / 225000) 1.91 1 1 1)) + CM - MO + 43.27))"
    by (rule exp10f_pos) (simp add: pow4_def CM_def MO_def)
  then have "0 < w" unfolding w_def
    using sky_factor_pos [OF k target_X_zenith_pos] by (intro mult_pos_pos)
  ultimately have bm: "0 < moonlight_BM (skybrightness_prepare 2020 6 0 0.872 100 15 50 (314159 / 225000) 1.91 1 1 1) (314159 / 225000) 0" by simp
  have tot: "total_B (skybrightness_prepare 2020 6 0 0.872 100 15 50 (314159 / 225000) 1.91 1 1 1) (314159 / 225000) 1.91 0 =
       dark_night_BN (skybrightness_prepare 2020 6 0 0.872 100 15 50 (314159 / 225000) 1.91 1 1 1) 0 + min (twilight_BT (skybrightness_prepare 2020 6 0 0.872 100 15 50 (314159 / 225000) 1.91 1 1 1) 1.91 0) (daylight_BD (skybrightness_prepare 2020 6 0 0.872 100 15 50 (314159 / 225000) 1.91 1 1 1) 1.91 0)"
    unfolding total_B_eq using zm by simp
  show ?thesis using zm bm tot by simp
qed

subsection \<open>C3: the air mass sentinel\<close>

text \<open>
  Claim C3, as amended.  The stored Moon air mass, and likewise the Sun air mass, is
  exactly 40 whenever the zenith distance of the body, converted to degrees, is strictly
  greater than 90.
\<close>
theorem airmass_clamp_above_90:
  "(90 < dm * DR \<longrightarrow> XM (skybrightness_prepare y m mp la al te rh dm ds kt km kn) = 40)
   \<and> (90 < ds * DR \<longrightarrow> XS (skybrightness_prepare y m mp la al te rh dm ds kt km kn) = 40)"
  by (simp add: prepare_XM prepare_XS)

theorem airmass_clamp_above_90_witness:
  "90 < 1.74 * DR \<and> 90 < 1.91 * DR
   \<and> XM (skybrightness_prepare 2020 6 3 0.872 100 15 50 1.74 1.91 1 1 1) = 40
   \<and> XS (skybrightness_prepare 2020 6 3 0.872 100 15 50 1.74 1.91 1 1 1) = 40"
proof -
  have m: "90 < 1.74 * DR" and s: "90 < 1.91 * DR" by (simp_all add: DR_def)
  show ?thesis
    using m s airmass_clamp_above_90 [of "1.74" 2020 6 3 "0.872" 100 15 50 "1.91" 1 1 1]
    by blast
qed

text \<open>
  Claim C3 as stated (greater than or equal to 90) fails at a zenith distance of exactly 90
  degrees: the test \<open>ZM > 90\<close> of line 95 is false, the formula of line 94 is kept, and
  its value is below 40 because \<open>cos (90 * RD)\<close> is positive for the constant 3.14159.
\<close>
theorem airmass_at_90_counterexample:
  "ZM (skybrightness_prepare 2020 6 3 0.872 100 15 50 (314159 / 200000) 1.91 1 1 1) \<ge> 90
   \<and> XM (skybrightness_prepare 2020 6 3 0.872 100 15 50 (314159 / 200000) 1.91 1 1 1) \<noteq> 40"
proof -
  have z: "(314159 / 200000) * DR = 90" by (simp add: DR_def)
  define c :: real where "c = cos (314159 / 200000)"
  have c: "0 < c" using cos_1570795_pos by (simp add: c_def)
  have d: "0.025 < c + 0.025 * exp (- 11 * c)" using c by (rule airmass_denominator_gt)
  have "1 / (c + 0.025 * exp (- 11 * c)) < 1 / 0.025"
    using d by (intro divide_strict_left_mono) simp_all
  then have "1 / (c + 0.025 * exp (- 11 * c)) < 40" by simp
  moreover have "XM (skybrightness_prepare 2020 6 3 0.872 100 15 50 (314159 / 200000) 1.91 1 1 1)
      = 1 / (c + 0.025 * exp (- 11 * c))"
    unfolding prepare_XM z by (simp add: c_def RD_def)
  ultimately have x: "XM (skybrightness_prepare 2020 6 3 0.872 100 15 50 (314159 / 200000) 1.91 1 1 1) \<noteq> 40"
    by simp
  have "ZM (skybrightness_prepare 2020 6 3 0.872 100 15 50 (314159 / 200000) 1.91 1 1 1) \<ge> 90"
    by (simp add: DR_def)
  with x show ?thesis by blast
qed

subsection \<open>C4: finiteness of the derived fields\<close>

text \<open>
  C4 is about events of IEEE arithmetic: a division by zero, a NaN, a field that is not
  finite, an exponential that underflows.  The fields of the model are real numbers, every
  one of them finite, and division and logarithm are total functions, so a statement that
  \<open>K\<close>, \<open>XM\<close> and \<open>XS\<close> are finite would hold of any definition and say nothing of the
  code.  No theorem is stated for it.  What the real reading does show is where line 86
  leaves it: for a humidity strictly between 0 and 100 the divisor \<open>logf (RH / 100)\<close> is
  negative and the base of the power exceeds 1 (\<open>humidity_base_gt_1\<close>); at a humidity of
  100, inside the interval that C4 names, the divisor is \<open>logf 1 = 0\<close>.
\<close>

subsection \<open>C5: the one-degree clamp of the angular distances\<close>

text \<open>
  Claim C5.  Inside \<open>skybrightness_get_luminance\<close> the angular distances to the Moon and
  to the Sun are clamped to at least one degree: a \<open>moon_dist\<close> (respectively
  \<open>sun_dist\<close>) whose value in degrees is below 1 gives the same luminance as the radian
  value of one degree, \<open>RD\<close>, in its place, all other arguments fixed.
\<close>
theorem angular_distance_clamp:
  assumes "moon_dist * DR < 1" and "sun_dist * DR < 1"
  shows "skybrightness_get_luminance sb moon_dist sd zenith_dist =
           skybrightness_get_luminance sb RD sd zenith_dist
       \<and> skybrightness_get_luminance sb md sun_dist zenith_dist =
           skybrightness_get_luminance sb md RD zenith_dist"
  using assms
  by (simp add: skybrightness_get_luminance_def total_B_def
      moonlight_BM_clamp twilight_BT_clamp daylight_BD_clamp)

theorem angular_distance_clamp_witness:
  "(1 / 100) * DR < 1 \<and> 0 * DR < 1
   \<and> skybrightness_get_luminance
         (skybrightness_prepare 2020 6 3 0.872 100 15 50 1.74 1.91 1 1 1) (1 / 100) 1.91 0 =
       skybrightness_get_luminance
         (skybrightness_prepare 2020 6 3 0.872 100 15 50 1.74 1.91 1 1 1) RD 1.91 0
   \<and> skybrightness_get_luminance
         (skybrightness_prepare 2020 6 3 0.872 100 15 50 1.74 1.91 1 1 1) 1.74 0 0 =
       skybrightness_get_luminance
         (skybrightness_prepare 2020 6 3 0.872 100 15 50 1.74 1.91 1 1 1) 1.74 RD 0"
proof -
  have m: "(1 / 100) * DR < 1" by (simp add: DR_def)
  have s: "0 * DR < 1" by simp
  show ?thesis
    using m s angular_distance_clamp [OF m s,
        of "skybrightness_prepare 2020 6 3 0.872 100 15 50 1.74 1.91 1 1 1" "1.91" 0 "1.74"]
    by blast
qed

subsection \<open>C6: finiteness and sign of the returned luminance\<close>

text \<open>
  C6 asks for a finite value, which is a notion of IEEE arithmetic that the real-valued
  model cannot express, and no theorem is stated for it.  On the sign alone, the two
  lemmas of the subsection on the sign of the returned luminance show a non-negative value
  for a target that is not below the horizon, under bounds on the session, and a negative
  value for a target 95.7 degrees from the zenith in the night scene.
\<close>

subsection \<open>C7: extinction against altitude\<close>

text \<open>
  Claim C7, as amended.  Of two calls of \<open>skybrightness_prepare\<close> that differ only in the
  altitude, with relative humidity strictly between 0 and 100, the call with the larger
  altitude does not store a larger composite extinction coefficient \<open>K\<close>: \<open>K\<close> does not
  increase with the altitude.
\<close>
theorem extinction_nonincreasing_in_altitude:
  assumes "0 < rh" "rh < 100" "al1 < al2"
  shows "\<not> K (skybrightness_prepare y m mp la al1 te rh dm ds kt km kn)
         < K (skybrightness_prepare y m mp la al2 te rh dm ds kt km kn)"
proof -
  define ra where "ra = (real_of_int m - 3) * 30 * RD"
  define A where "A = powf (1 - 0.32 / ln (rh / 100)) 1.33
              * (1 + 0.33 * (if la * DR > 0 then 1 else - 1) * sin ra)"
  define ko where "ko = OZ * (3 + 0.4 * (la * cos ra - cos (3 * la))) / 3"
  define B where "B = WT * 0.94 * (rh / 100) * expf (te / 15)"
  have eq: "K (skybrightness_prepare y m mp la al te rh dm ds kt km kn) =
      0.1066 * expf (- al / 8200) + 0.1 * expf (- al / 1500) * A + ko + B * expf (- al / 8200)" for al
    unfolding prepare_K A_def ko_def B_def ra_def by (simp add: mult.assoc)
  have "0 \<le> 1 - 0.32 / ln (rh / 100)"
    using humidity_base_gt_1 [OF assms(1,2)] by linarith
  then have "0 \<le> powf (1 - 0.32 / ln (rh / 100)) 1.33"
    by (simp only: powf_nonneg_base powr_ge_zero)
  moreover have "(0::real) \<le> 0.67" by simp
  then have "0 \<le> 1 + 0.33 * (if la * DR > 0 then 1 else - 1) * sin ra"
    using season_factor_bounds(1) [of "la * DR > 0" ra] by (rule order_trans)
  ultimately have A: "0 \<le> A" unfolding A_def by (rule mult_nonneg_nonneg)
  have B: "0 \<le> B" using assms(1) by (simp add: B_def WT_def)
  have e1: "expf (- al2 / 8200) \<le> expf (- al1 / 8200)"
    using assms(3) by (intro expf_mono) simp
  have e2: "expf (- al2 / 1500) \<le> expf (- al1 / 1500)"
    using assms(3) by (intro expf_mono) simp
  have t1: "0.1066 * expf (- al2 / 8200) \<le> 0.1066 * expf (- al1 / 8200)" using e1 by simp
  have "expf (- al2 / 1500) * A \<le> expf (- al1 / 1500) * A" using e2 A by (rule mult_right_mono)
  then have t2: "0.1 * expf (- al2 / 1500) * A \<le> 0.1 * expf (- al1 / 1500) * A" by simp
  have t3: "B * expf (- al2 / 8200) \<le> B * expf (- al1 / 8200)"
    using e1 B by (rule mult_left_mono)
  have "K (skybrightness_prepare y m mp la al2 te rh dm ds kt km kn)
       \<le> K (skybrightness_prepare y m mp la al1 te rh dm ds kt km kn)"
    unfolding eq using t1 t2 t3 by linarith
  then show ?thesis by (rule leD)
qed

theorem extinction_nonincreasing_in_altitude_witness:
  "(0::real) < 50 \<and> (50::real) < 100 \<and> (0::real) < 100
   \<and> \<not> K (skybrightness_prepare 2020 6 3 0.872 0 15 50 1.74 1.91 1 1 1)
       < K (skybrightness_prepare 2020 6 3 0.872 100 15 50 1.74 1.91 1 1 1)"
proof -
  have a: "(0::real) < 50" and b: "(50::real) < 100" and c: "(0::real) < 100" by simp_all
  show ?thesis
    using a b c
      extinction_nonincreasing_in_altitude [OF a b c, of 2020 6 3 "0.872" 15 "1.74" "1.91" 1 1 1]
    by blast
qed

text \<open>
  Claim C7 as stated (strictly smaller) fails where the altitude exponentials of lines
  84, 85 and 89 have underflowed: at one and at two million metres \<open>expf\<close> returns zero
  for both, and the same \<open>K\<close>, the ozone term alone, is stored.
\<close>
theorem extinction_equal_after_underflow_counterexample:
  "(0::real) < 50 \<and> (50::real) < 100 \<and> (1000000::real) < 2000000
   \<and> K (skybrightness_prepare 2020 6 3 0.872 2000000 15 50 1.74 1.91 1 1 1)
       = K (skybrightness_prepare 2020 6 3 0.872 1000000 15 50 1.74 1.91 1 1 1)
   \<and> \<not> K (skybrightness_prepare 2020 6 3 0.872 2000000 15 50 1.74 1.91 1 1 1)
       < K (skybrightness_prepare 2020 6 3 0.872 1000000 15 50 1.74 1.91 1 1 1)"
proof -
  have u: "expf (- 1000000 / 8200) = 0" "expf (- 1000000 / 1500) = 0"
    "expf (- 2000000 / 8200) = 0" "expf (- 2000000 / 1500) = 0"
    by (rule expf_underflow, simp)+
  have "K (skybrightness_prepare 2020 6 3 0.872 2000000 15 50 1.74 1.91 1 1 1)
      = K (skybrightness_prepare 2020 6 3 0.872 1000000 15 50 1.74 1.91 1 1 1)"
    unfolding prepare_K u by simp
  then show ?thesis by simp
qed

subsection \<open>C8: air mass against zenith distance\<close>

text \<open>
  Claim C8.  The air mass that \<open>skybrightness_prepare\<close> stores for the Moon and for the
  Sun does not decrease when the zenith distance of the body grows within 0 to 90 degrees.
\<close>
theorem airmass_nondecreasing:
  assumes "0 \<le> z1 * DR" "z1 * DR \<le> z2 * DR" "z2 * DR \<le> 90"
  shows "XM (skybrightness_prepare y m mp la al te rh z1 ds kt km kn)
           \<le> XM (skybrightness_prepare y m mp la al te rh z2 ds kt km kn)
       \<and> XS (skybrightness_prepare y m mp la al te rh dm z1 kt km kn)
           \<le> XS (skybrightness_prepare y m mp la al te rh dm z2 kt km kn)"
proof -
  have "1 / (cos (z1 * DR * RD) + 0.025 * exp (- 11 * cos (z1 * DR * RD)))
       \<le> 1 / (cos (z2 * DR * RD) + 0.025 * exp (- 11 * cos (z2 * DR * RD)))"
    using assms by (rule airmass_mono)
  moreover have "\<not> 90 < z1 * DR" "\<not> 90 < z2 * DR" using assms by simp_all
  ultimately show ?thesis unfolding prepare_XM prepare_XS by (simp only: if_False simp_thms)
qed

theorem airmass_nondecreasing_witness:
  "0 \<le> (1 / 2) * DR \<and> (1 / 2) * DR \<le> 1 * DR \<and> 1 * DR \<le> 90
   \<and> XM (skybrightness_prepare 2020 6 3 0.872 100 15 50 (1 / 2) 1.91 1 1 1)
        \<le> XM (skybrightness_prepare 2020 6 3 0.872 100 15 50 1 1.91 1 1 1)
   \<and> XS (skybrightness_prepare 2020 6 3 0.872 100 15 50 1.74 (1 / 2) 1 1 1)
        \<le> XS (skybrightness_prepare 2020 6 3 0.872 100 15 50 1.74 1 1 1 1)"
proof -
  have a: "0 \<le> (1 / 2) * DR" and b: "(1 / 2) * DR \<le> 1 * DR" and c: "1 * DR \<le> 90"
    by (simp_all add: DR_def)
  show ?thesis
    using a b c airmass_nondecreasing [OF a b c, of 2020 6 3 "0.872" 100 15 50 "1.91" 1 1 1 "1.74"]
    by blast
qed

subsection \<open>C9: linearity in the dark-night scale\<close>




subsection \<open>C10: the Moon term at exactly 80 degrees\<close>

text \<open>
  Claim C10.  When the Moon zenith distance stored in the session is exactly 80 degrees,
  neither the branch for \<open>ZM < 80\<close> nor the branch for \<open>80 < ZM \<le> 90\<close> is taken: the total,
  and with it the returned luminance, is the Moon-free one.
\<close>
theorem moon_term_absent_at_80:
  assumes "ZM sb = 80"
  shows "total_B sb moon_dist sun_dist zenith_dist =
           (if daylight_BD sb sun_dist zenith_dist > twilight_BT sb sun_dist zenith_dist
            then dark_night_BN sb zenith_dist + twilight_BT sb sun_dist zenith_dist
            else dark_night_BN sb zenith_dist + daylight_BD sb sun_dist zenith_dist)
       \<and> skybrightness_get_luminance sb moon_dist sun_dist zenith_dist =
           (if daylight_BD sb sun_dist zenith_dist > twilight_BT sb sun_dist zenith_dist
            then dark_night_BN sb zenith_dist + twilight_BT sb sun_dist zenith_dist
            else dark_night_BN sb zenith_dist + daylight_BD sb sun_dist zenith_dist)
           / (1.11 / 10 ^ 15) * NLAMBERT_TO_CDM2"
  using assms by (simp add: skybrightness_get_luminance_def total_B_def Let_def)

theorem moon_term_absent_at_80_witness:
  "ZM (skybrightness_prepare 2020 6 3 0.872 100 15 50 (314159 / 225000) 1.91 1 1 1) = 80 \<and>
   total_B (skybrightness_prepare 2020 6 3 0.872 100 15 50 (314159 / 225000) 1.91 1 1 1)
       (314159 / 225000) 1.91 0 =
     (if daylight_BD (skybrightness_prepare 2020 6 3 0.872 100 15 50 (314159 / 225000) 1.91 1 1 1) 1.91 0
         > twilight_BT (skybrightness_prepare 2020 6 3 0.872 100 15 50 (314159 / 225000) 1.91 1 1 1) 1.91 0
      then dark_night_BN (skybrightness_prepare 2020 6 3 0.872 100 15 50 (314159 / 225000) 1.91 1 1 1) 0
           + twilight_BT (skybrightness_prepare 2020 6 3 0.872 100 15 50 (314159 / 225000) 1.91 1 1 1) 1.91 0
      else dark_night_BN (skybrightness_prepare 2020 6 3 0.872 100 15 50 (314159 / 225000) 1.91 1 1 1) 0
           + daylight_BD (skybrightness_prepare 2020 6 3 0.872 100 15 50 (314159 / 225000) 1.91 1 1 1) 1.91 0)"
proof -
  have z: "ZM (skybrightness_prepare 2020 6 3 0.872 100 15 50 (314159 / 225000) 1.91 1 1 1) = 80"
    by (simp add: DR_def)
  show ?thesis
    using z moon_term_absent_at_80 [OF z, of "314159 / 225000" "1.91" 0] by blast
qed

end
